theory Spec2Isabelle
  imports Main
begin

section \<open>Data model of \<open>cc_llm.py\<close>\<close>

text \<open>
  The module consists of the single coroutine \<open>async_update_llm_data\<close>. It resolves the
  requested LLM APIs one after the other, builds the system prompt from the base prompt
  and the API prompts, appends the extra system prompt, installs the effective API
  instance on the chat log and overwrites the leading system message.

  Python exceptions are values of type \<open>exn\<close>. \<open>TemplateError\<close> is a subclass of
  \<open>HomeAssistantError\<close> in Home Assistant, so a handler for \<open>HomeAssistantError\<close> catches
  both; every other exception class is caught by neither handler of the module.
\<close>

type_synonym tool = string
type_synonym prompt_object = string
type_synonym client = string

datatype exn =
    TemplateError string
  | HomeAssistantError string
  | ValueError string
  | IndexError string
  | OtherError string

fun is_HomeAssistantError :: "exn \<Rightarrow> bool" where
  "is_HomeAssistantError (TemplateError m) = True"
| "is_HomeAssistantError (HomeAssistantError m) = True"
| "is_HomeAssistantError (ValueError m) = False"
| "is_HomeAssistantError (IndexError m) = False"
| "is_HomeAssistantError (OtherError m) = False"

fun is_TemplateError :: "exn \<Rightarrow> bool" where
  "is_TemplateError (TemplateError m) = True"
| "is_TemplateError (HomeAssistantError m) = False"
| "is_TemplateError (ValueError m) = False"
| "is_TemplateError (IndexError m) = False"
| "is_TemplateError (OtherError m) = False"

text \<open>
  A prompt is a plain string or a tuple. A tuple of two elements is a pair of a Langfuse
  prompt object and the prompt text; a tuple of any other length cannot be unpacked into
  two names.
\<close>

datatype prompt_value =
    Str string
  | Tuple2 prompt_object string
  | TupleN nat

datatype api = CustomLLMAPI | API string

datatype serializer = selector_serializer | serializer_of string

record ha_context =
  user_id :: "string option"

record llm_context =
  platform :: string
  ctx :: "ha_context option"
  language :: string
  assistant :: string
  device_id :: "string option"

text \<open>
  \<open>api_prompt\<close> is awaited by the module, so the field holds what awaiting it gives: an
  exception or a prompt value. That is the await in the loop (line 90). The module awaits
  the attribute of the same instance once more when the custom API is the only instance
  (line 124); the class of the instance is defined in \<open>api.py\<close>, outside this module, so
  what that later await gives is a parameter of its own, \<open>api_prompt_again\<close> below.
\<close>

record api_instance =
  api :: api
  api_prompt :: "exn + prompt_value"
  llm_context :: llm_context
  tools :: "tool list"
  custom_serializer :: "serializer option"

record user_input =
  in_ctx :: "ha_context option"
  in_language :: string
  in_device_id :: "string option"
  in_extra_system_prompt :: "string option"

record config_entry =
  entry_id :: string

datatype content =
    SystemContent string
  | UserContent string
  | AssistantContent string
  | ToolResultContent string

record chat_log =
  conversation_id :: string
  llm_api :: "api_instance option"
  extra_system_prompt :: "string option"
  content :: "content list"

record prompt_context =
  ha_name :: string
  user_name :: "string option"

record user =
  name :: "string option"

text \<open>
  The collaborators the coroutine calls and the constants of \<open>const.py\<close> it reads are
  parameters: the user registry, the Langfuse client stored under the entry id, the
  custom API (constructed with the user name and the config entry, with the Langfuse
  client attached when there is one), the registry of the other APIs, the prompt manager,
  and what awaiting \<open>api_prompt\<close> of an instance gives when it is awaited the second time:
  the same prompt again, a prompt rendered anew, or an exception such as the
  \<open>RuntimeError\<close> of a coroutine that was already awaited.
\<close>

record hass =
  DOMAIN :: string
  LLM_API_ID :: string
  location_name :: string
  async_get_user :: "string \<Rightarrow> user option"
  langfuse_client :: "string \<Rightarrow> client option"
  async_get_api_instance ::
    "string option \<Rightarrow> config_entry \<Rightarrow> client option \<Rightarrow> llm_context \<Rightarrow> exn + api_instance"
  async_get_api :: "string \<Rightarrow> llm_context \<Rightarrow> exn + api_instance"
  async_get_base_prompt :: "prompt_context \<Rightarrow> config_entry \<Rightarrow> exn + prompt_value"
  api_prompt_again :: "api_instance \<Rightarrow> exn + prompt_value"

datatype error_code = UNKNOWN

record intent_response =
  response_language :: string
  response_error_code :: error_code
  response_speech :: string

datatype raised =
    ConverseError string string intent_response
  | Raise exn

text \<open>
  What the coroutine does to the outside besides the chat log: the error lines of the
  logger, the call of the prompt manager, the tags put on the Langfuse trace and the
  record appended to the conversation trace. Debug lines of the logger are left out.
\<close>

datatype event =
    LogErrorGettingAPI string exn
  | LogErrorRenderingPrompt exn
  | GetBasePrompt prompt_context
  | UpdateCurrentTrace "string list"
  | TraceAppend "content list" "tool list option"

section \<open>Python helpers\<close>

definition newline :: string where
  "newline = [CHR 0x0A]"

fun join :: "string \<Rightarrow> string list \<Rightarrow> string" where
  "join sep [] = []"
| "join sep [x] = x"
| "join sep (x # y # ys) = x @ sep @ join sep (y # ys)"

fun truthy :: "string option \<Rightarrow> bool" where
  "truthy None = False"
| "truthy (Some s) = (s \<noteq> [])"

definition py_or :: "string option \<Rightarrow> string option \<Rightarrow> string option" where
  "py_or a b = (if truthy a then a else b)"

section \<open>Lines 36 to 53: the LLM context and the user name\<close>

definition make_llm_context :: "hass \<Rightarrow> user_input \<Rightarrow> llm_context" where
  "make_llm_context h ui =
     \<lparr>platform = DOMAIN h, ctx = in_ctx ui, language = in_language ui,
      assistant = ''conversation'', device_id = in_device_id ui\<rparr>"

definition get_user_name :: "hass \<Rightarrow> user_input \<Rightarrow> string option" where
  "get_user_name h ui =
     (case in_ctx ui of
        None \<Rightarrow> None
      | Some c \<Rightarrow>
          (if truthy (user_id c) then
             (case async_get_user h (the (user_id c)) of
                None \<Rightarrow> None
              | Some u \<Rightarrow> name u)
           else None))"

section \<open>Lines 55 to 105: collecting the API instances, tools and prompts\<close>

record collected =
  api_instances :: "api_instance list"
  all_tools :: "tool list"
  api_prompts :: "string list"
  logged :: "event list"

definition no_apis :: collected where
  "no_apis = \<lparr>api_instances = [], all_tools = [], api_prompts = [], logged = []\<rparr>"

definition get_llm_api :: "hass \<Rightarrow> user_input \<Rightarrow> config_entry \<Rightarrow> string \<Rightarrow> exn + api_instance" where
  "get_llm_api h ui ce api_name =
     (if api_name = LLM_API_ID h then
        async_get_api_instance h (get_user_name h ui) ce (langfuse_client h (entry_id ce))
          (make_llm_context h ui)
      else async_get_api h api_name (make_llm_context h ui))"

fun prompt_text :: "prompt_value \<Rightarrow> exn + string" where
  "prompt_text (Str s) = Inr s"
| "prompt_text (Tuple2 obj s) = Inr s"
| "prompt_text (TupleN n) = Inl (ValueError ''cannot unpack'')"

definition on_error :: "string \<Rightarrow> exn \<Rightarrow> collected \<Rightarrow> collected \<times> exn option" where
  "on_error api_name err acc =
     (if is_HomeAssistantError err then
        (acc\<lparr>logged := logged acc @ [LogErrorGettingAPI api_name err]\<rparr>, None)
      else (acc, Some err))"

definition collect_api ::
  "(string \<Rightarrow> exn + api_instance) \<Rightarrow> string \<Rightarrow> collected \<Rightarrow> collected \<times> exn option" where
  "collect_api get api_name acc =
     (case get api_name of
        Inl err \<Rightarrow> on_error api_name err acc
      | Inr a \<Rightarrow>
          (let acc1 = acc\<lparr>api_instances := api_instances acc @ [a],
                           all_tools := all_tools acc @ tools a\<rparr>
           in case api_prompt a of
                Inl err \<Rightarrow> on_error api_name err acc1
              | Inr p \<Rightarrow>
                  (case prompt_text p of
                     Inl err \<Rightarrow> on_error api_name err acc1
                   | Inr t \<Rightarrow> (acc1\<lparr>api_prompts := api_prompts acc1 @ [t]\<rparr>, None))))"

fun collect_loop ::
  "(string \<Rightarrow> exn + api_instance) \<Rightarrow> string list \<Rightarrow> collected \<Rightarrow> collected \<times> exn option" where
  "collect_loop get [] acc = (acc, None)"
| "collect_loop get (n # ns) acc =
     (case collect_api get n acc of
        (acc1, Some err) \<Rightarrow> (acc1, Some err)
      | (acc1, None) \<Rightarrow> collect_loop get ns acc1)"

definition collect_apis ::
  "(string \<Rightarrow> exn + api_instance) \<Rightarrow> string list option \<Rightarrow> collected \<times> exn option" where
  "collect_apis get llm_api_names =
     (case llm_api_names of
        None \<Rightarrow> (no_apis, None)
      | Some ns \<Rightarrow> (if ns = [] then (no_apis, None) else collect_loop get ns no_apis))"

section \<open>Lines 107 to 166: building the prompt\<close>

fun unpack_prompt :: "prompt_value \<Rightarrow> exn + (prompt_object option \<times> string)" where
  "unpack_prompt (Str s) = Inr (None, s)"
| "unpack_prompt (Tuple2 obj s) = Inr (Some obj, s)"
| "unpack_prompt (TupleN n) = Inl (ValueError ''cannot unpack'')"

definition has_custom_api :: "api_instance list \<Rightarrow> bool" where
  "has_custom_api insts = list_ex (\<lambda>a. api a = CustomLLMAPI) insts"

definition make_prompt_context :: "hass \<Rightarrow> user_input \<Rightarrow> prompt_context" where
  "make_prompt_context h ui = \<lparr>ha_name = location_name h, user_name = get_user_name h ui\<rparr>"

definition render_base ::
  "hass \<Rightarrow> user_input \<Rightarrow> config_entry \<Rightarrow> exn + (prompt_object option \<times> string)" where
  "render_base h ui ce =
     (case async_get_base_prompt h (make_prompt_context h ui) ce of
        Inl err \<Rightarrow> Inl err
      | Inr p \<Rightarrow> unpack_prompt p)"

text \<open>The body of the \<open>try\<close> statement: the events it emits and how it ends.\<close>

definition try_build_prompt ::
  "hass \<Rightarrow> user_input \<Rightarrow> config_entry \<Rightarrow> collected
     \<Rightarrow> event list \<times> (exn + (prompt_object option \<times> string))" where
  "try_build_prompt h ui ce c =
     (if has_custom_api (api_instances c) \<and> length (api_instances c) = 1 then
        ([], case api_prompt_again h (hd (api_instances c)) of
               Inl err \<Rightarrow> Inl err
             | Inr p \<Rightarrow> unpack_prompt p)
      else if api_instances c = [] then
        ([GetBasePrompt (make_prompt_context h ui)], render_base h ui ce)
      else
        ([GetBasePrompt (make_prompt_context h ui)],
         case render_base h ui ce of
           Inl err \<Rightarrow> Inl err
         | Inr (obj, base_prompt_text) \<Rightarrow>
             Inr (obj, join newline (base_prompt_text # api_prompts c))))"

definition template_error_response :: "user_input \<Rightarrow> intent_response" where
  "template_error_response ui =
     \<lparr>response_language = in_language ui, response_error_code = UNKNOWN,
      response_speech = ''Sorry, I had a problem with my template''\<rparr>"

text \<open>The \<open>try\<close> statement with its handler for \<open>TemplateError\<close>.\<close>

definition build_prompt ::
  "hass \<Rightarrow> user_input \<Rightarrow> config_entry \<Rightarrow> chat_log \<Rightarrow> collected
     \<Rightarrow> event list \<times> (raised + (prompt_object option \<times> string))" where
  "build_prompt h ui ce cl c =
     (case try_build_prompt h ui ce c of
        (evs, Inr r) \<Rightarrow> (evs, Inr r)
      | (evs, Inl err) \<Rightarrow>
          (if is_TemplateError err then
             (evs @ [LogErrorRenderingPrompt err],
              Inl (ConverseError ''Error rendering prompt'' (conversation_id cl)
                     (template_error_response ui)))
           else (evs, Inl (Raise err))))"

section \<open>Lines 168 to 209: extra system prompt, effective API, publishing\<close>

definition append_extra :: "string \<Rightarrow> string option \<Rightarrow> string" where
  "append_extra prompt extra =
     (case extra of
        None \<Rightarrow> prompt
      | Some s \<Rightarrow> (if s \<noteq> [] then prompt @ newline @ s else prompt))"

definition select_extra :: "user_input \<Rightarrow> chat_log \<Rightarrow> string option" where
  "select_extra ui cl = py_or (in_extra_system_prompt ui) (extra_system_prompt cl)"

definition combine_apis ::
  "llm_context \<Rightarrow> string \<Rightarrow> collected \<Rightarrow> api_instance option" where
  "combine_apis lc prompt c =
     (if api_instances c \<noteq> [] then
        (if length (api_instances c) = 1 then Some (hd (api_instances c))
         else Some \<lparr>api = api (hd (api_instances c)), api_prompt = Inr (Str prompt),
                    llm_context = lc, tools = all_tools c,
                    custom_serializer = Some selector_serializer\<rparr>)
      else None)"

definition publish ::
  "hass \<Rightarrow> user_input \<Rightarrow> chat_log \<Rightarrow> collected \<Rightarrow> event list \<Rightarrow> prompt_object option \<Rightarrow> string
     \<Rightarrow> (chat_log \<times> event list) \<times> (raised + prompt_object option)" where
  "publish h ui cl c evs obj prompt0 =
     (let extra = select_extra ui cl;
          prompt = append_extra prompt0 extra;
          evs1 = evs @ (if truthy extra then [UpdateCurrentTrace [''extra_system_prompt'']] else []);
          cl1 = cl\<lparr>llm_api := combine_apis (make_llm_context h ui) prompt c,
                   extra_system_prompt := extra\<rparr>
      in case content cl1 of
           [] \<Rightarrow> ((cl1, evs1), Inl (Raise (IndexError ''list assignment index out of range'')))
         | m # ms \<Rightarrow>
             (let cl2 = cl1\<lparr>content := SystemContent prompt # ms\<rparr>
              in ((cl2, evs1 @ [TraceAppend (content cl2) (map_option tools (llm_api cl2))]),
                  Inr obj)))"

section \<open>The coroutine\<close>

text \<open>
  The result is the chat log as the coroutine leaves it, the events in the order they
  happened, and either the exception that left the coroutine or the returned prompt object.
\<close>

definition async_update_llm_data ::
  "hass \<Rightarrow> user_input \<Rightarrow> config_entry \<Rightarrow> chat_log \<Rightarrow> string list option
     \<Rightarrow> (chat_log \<times> event list) \<times> (raised + prompt_object option)" where
  "async_update_llm_data h ui ce cl llm_api_names =
     (case collect_apis (get_llm_api h ui ce) llm_api_names of
        (c, Some err) \<Rightarrow> ((cl, logged c), Inl (Raise err))
      | (c, None) \<Rightarrow>
          (case build_prompt h ui ce cl c of
             (evs, Inl r) \<Rightarrow> ((cl, logged c @ evs), Inl r)
           | (evs, Inr (obj, prompt0)) \<Rightarrow> publish h ui cl c (logged c @ evs) obj prompt0))"

section \<open>Notions used in the statements\<close>

text \<open>
  The requested names, the instances that resolve (in the order of the names), the prompt
  fragment an instance contributes (none when awaiting its prompt fails), the exception
  one pass of the loop ends with, and the error lines the loop writes.
\<close>

definition requested :: "string list option \<Rightarrow> string list" where
  "requested llm_api_names = (case llm_api_names of None \<Rightarrow> [] | Some ns \<Rightarrow> ns)"

definition resolved :: "(string \<Rightarrow> exn + api_instance) \<Rightarrow> string list \<Rightarrow> api_instance list" where
  "resolved get ns = map (projr \<circ> get) (filter (\<lambda>n. \<not> isl (get n)) ns)"

definition fragment :: "api_instance \<Rightarrow> string list" where
  "fragment a =
     (case api_prompt a of
        Inl err \<Rightarrow> []
      | Inr p \<Rightarrow> (case prompt_text p of Inl err \<Rightarrow> [] | Inr t \<Rightarrow> [t]))"

definition failure :: "(string \<Rightarrow> exn + api_instance) \<Rightarrow> string \<Rightarrow> exn option" where
  "failure get n =
     (case get n of
        Inl err \<Rightarrow> Some err
      | Inr a \<Rightarrow>
          (case api_prompt a of
             Inl err \<Rightarrow> Some err
           | Inr p \<Rightarrow> (case prompt_text p of Inl err \<Rightarrow> Some err | Inr t \<Rightarrow> None)))"

definition recoverable :: "(string \<Rightarrow> exn + api_instance) \<Rightarrow> string \<Rightarrow> bool" where
  "recoverable get n = (case failure get n of None \<Rightarrow> True | Some err \<Rightarrow> is_HomeAssistantError err)"

definition error_lines :: "(string \<Rightarrow> exn + api_instance) \<Rightarrow> string list \<Rightarrow> event list" where
  "error_lines get ns =
     concat (map (\<lambda>n. case failure get n of None \<Rightarrow> [] | Some err \<Rightarrow> [LogErrorGettingAPI n err]) ns)"

definition resolved_apis ::
  "hass \<Rightarrow> user_input \<Rightarrow> config_entry \<Rightarrow> string list option \<Rightarrow> api_instance list" where
  "resolved_apis h ui ce names = resolved (get_llm_api h ui ce) (requested names)"

definition loop_recoverable ::
  "hass \<Rightarrow> user_input \<Rightarrow> config_entry \<Rightarrow> string list option \<Rightarrow> bool" where
  "loop_recoverable h ui ce names = list_all (recoverable (get_llm_api h ui ce)) (requested names)"

definition loop_errors ::
  "hass \<Rightarrow> user_input \<Rightarrow> config_entry \<Rightarrow> string list option \<Rightarrow> event list" where
  "loop_errors h ui ce names = error_lines (get_llm_api h ui ce) (requested names)"

definition loop_result ::
  "hass \<Rightarrow> user_input \<Rightarrow> config_entry \<Rightarrow> string list option \<Rightarrow> collected" where
  "loop_result h ui ce names =
     \<lparr>api_instances = resolved_apis h ui ce names,
      all_tools = concat (map tools (resolved_apis h ui ce names)),
      api_prompts = concat (map fragment (resolved_apis h ui ce names)),
      logged = loop_errors h ui ce names\<rparr>"

definition combines :: "api_instance list \<Rightarrow> bool" where
  "combines insts = (2 \<le> length insts \<or> (length insts = 1 \<and> api (hd insts) \<noteq> CustomLLMAPI))"

definition final_prompt :: "user_input \<Rightarrow> chat_log \<Rightarrow> string \<Rightarrow> string" where
  "final_prompt ui cl prompt0 = append_extra prompt0 (select_extra ui cl)"

text \<open>
  The two shapes a prompt has: the plain text, and the pair of a prompt object and the
  text.
\<close>

fun prompt_with :: "prompt_object option \<Rightarrow> string \<Rightarrow> prompt_value" where
  "prompt_with None t = Str t"
| "prompt_with (Some obj) t = Tuple2 obj t"

text \<open>The three components of what a turn results in.\<close>

definition chat_log_after ::
  "(chat_log \<times> event list) \<times> (raised + prompt_object option) \<Rightarrow> chat_log" where
  "chat_log_after r = fst (fst r)"

definition events_of ::
  "(chat_log \<times> event list) \<times> (raised + prompt_object option) \<Rightarrow> event list" where
  "events_of r = snd (fst r)"

definition outcome_of ::
  "(chat_log \<times> event list) \<times> (raised + prompt_object option) \<Rightarrow> raised + prompt_object option" where
  "outcome_of r = snd r"

fun is_trace_event :: "event \<Rightarrow> bool" where
  "is_trace_event (UpdateCurrentTrace tags) = True"
| "is_trace_event (TraceAppend msgs ts) = True"
| "is_trace_event (LogErrorGettingAPI n e) = False"
| "is_trace_event (LogErrorRenderingPrompt e) = False"
| "is_trace_event (GetBasePrompt pc) = False"


section \<open>Example turns\<close>

definition ex_context :: llm_context where
  "ex_context =
     \<lparr>platform = ''custom_conversation'', ctx = None, language = ''en'',
      assistant = ''conversation'', device_id = None\<rparr>"

definition ex_custom :: api_instance where
  "ex_custom =
     \<lparr>api = CustomLLMAPI, api_prompt = Inr (Tuple2 ''lf-7'' ''Custom complete prompt.''),
      llm_context = ex_context, tools = [''turn_on'', ''turn_off''],
      custom_serializer = None\<rparr>"

definition ex_weather :: api_instance where
  "ex_weather =
     \<lparr>api = API ''weather'', api_prompt = Inr (Str ''Tools: weather.''),
      llm_context = ex_context, tools = [''forecast''], custom_serializer = None\<rparr>"

definition ex_silent :: api_instance where
  "ex_silent =
     \<lparr>api = API ''silent'', api_prompt = Inl (HomeAssistantError ''no prompt''),
      llm_context = ex_context, tools = [''ping''], custom_serializer = None\<rparr>"

definition ex_hass :: hass where
  "ex_hass =
     \<lparr>DOMAIN = ''custom_conversation'', LLM_API_ID = ''custom'', location_name = ''Home'',
      async_get_user = (\<lambda>uid. None),
      langfuse_client = (\<lambda>eid. None),
      async_get_api_instance = (\<lambda>un ce lf lc. Inr ex_custom),
      async_get_api =
        (\<lambda>n lc. if n = ''weather'' then Inr ex_weather
                 else if n = ''silent'' then Inr ex_silent
                 else Inl (HomeAssistantError ''not found'')),
      async_get_base_prompt = (\<lambda>pc ce. Inr (Str ''Base.'')),
      api_prompt_again = (\<lambda>a. api_prompt a)\<rparr>"

definition ex_input :: user_input where
  "ex_input =
     \<lparr>in_ctx = None, in_language = ''en'', in_device_id = None,
      in_extra_system_prompt = None\<rparr>"

definition ex_entry :: config_entry where
  "ex_entry = \<lparr>entry_id = ''e1''\<rparr>"

definition ex_chat_log :: chat_log where
  "ex_chat_log =
     \<lparr>conversation_id = ''c1'', llm_api = None, extra_system_prompt = None,
      content = [SystemContent ''old'', UserContent ''hello'']\<rparr>"

definition ex_custom_silent :: api_instance where
  "ex_custom_silent =
     \<lparr>api = CustomLLMAPI, api_prompt = Inl (HomeAssistantError ''no prompt''),
      llm_context = ex_context, tools = [''turn_on'', ''turn_off''],
      custom_serializer = None\<rparr>"

definition ex_hass_custom_silent :: hass where
  "ex_hass_custom_silent =
     ex_hass\<lparr>async_get_api_instance := (\<lambda>un ce lf lc. Inr ex_custom_silent)\<rparr>"

definition ex_hass_custom_reused :: hass where
  "ex_hass_custom_reused =
     ex_hass_custom_silent
       \<lparr>api_prompt_again :=
          (\<lambda>a. Inl (OtherError ''cannot reuse already awaited coroutine''))\<rparr>"



definition ex_hass_base_pair :: hass where
  "ex_hass_base_pair =
     ex_hass\<lparr>async_get_base_prompt := (\<lambda>pc ce. Inr (Tuple2 ''lf-3'' ''Base.''))\<rparr>"

definition ex_hass_bad_template :: hass where
  "ex_hass_bad_template =
     ex_hass\<lparr>async_get_base_prompt := (\<lambda>pc ce. Inl (TemplateError ''bad template''))\<rparr>"

definition ex_input_extra :: user_input where
  "ex_input_extra = ex_input\<lparr>in_extra_system_prompt := Some ''Be brief.''\<rparr>"

definition ex_chat_log_stored :: chat_log where
  "ex_chat_log_stored = ex_chat_log\<lparr>extra_system_prompt := Some ''Speak French.''\<rparr>"

section \<open>The loop when every exception in it is a \<open>HomeAssistantError\<close>\<close>

lemma collect_api_recoverable:
  assumes "recoverable get n"
  shows "collect_api get n acc =
     (acc\<lparr>api_instances := api_instances acc @ resolved get [n],
          all_tools := all_tools acc @ concat (map tools (resolved get [n])),
          api_prompts := api_prompts acc @ concat (map fragment (resolved get [n])),
          logged := logged acc @ error_lines get [n]\<rparr>, None)"
  using assms
  by (auto simp: collect_api_def recoverable_def failure_def resolved_def fragment_def
      error_lines_def on_error_def Let_def split: sum.splits)

lemma resolved_Cons: "resolved get (n # ns) = resolved get [n] @ resolved get ns"
  by (simp add: resolved_def)

lemma error_lines_Cons: "error_lines get (n # ns) = error_lines get [n] @ error_lines get ns"
  by (simp add: error_lines_def)

lemma collect_loop_recoverable:
  assumes "\<forall>n\<in>set ns. recoverable get n"
  shows "collect_loop get ns acc =
     (acc\<lparr>api_instances := api_instances acc @ resolved get ns,
          all_tools := all_tools acc @ concat (map tools (resolved get ns)),
          api_prompts := api_prompts acc @ concat (map fragment (resolved get ns)),
          logged := logged acc @ error_lines get ns\<rparr>, None)"
  using assms
proof (induction ns arbitrary: acc)
  case Nil
  then show ?case by (simp add: resolved_def error_lines_def)
next
  case (Cons n ns)
  have r: "recoverable get n" and rs: "\<forall>m\<in>set ns. recoverable get m"
    using Cons.prems by simp_all
  show ?case
    unfolding collect_loop.simps collect_api_recoverable [OF r]
    by (simp add: Cons.IH [OF rs] resolved_Cons [of get n ns] error_lines_Cons [of get n ns])
qed

lemma collect_apis_recoverable:
  assumes "\<forall>n\<in>set (requested names). recoverable get n"
  shows "collect_apis get names =
     (\<lparr>api_instances = resolved get (requested names),
       all_tools = concat (map tools (resolved get (requested names))),
       api_prompts = concat (map fragment (resolved get (requested names))),
       logged = error_lines get (requested names)\<rparr>, None)"
proof (cases names)
  case None
  then show ?thesis
    by (simp add: collect_apis_def requested_def no_apis_def resolved_def error_lines_def)
next
  case (Some ns)
  then have "\<forall>n\<in>set ns. recoverable get n" using assms by (simp add: requested_def)
  then show ?thesis using Some
    by (simp add: collect_apis_def requested_def collect_loop_recoverable no_apis_def
        resolved_def error_lines_def)
qed

section \<open>The turn after the loop\<close>

lemma collect_apis_loop_result:
  assumes "loop_recoverable h ui ce names"
  shows "collect_apis (get_llm_api h ui ce) names = (loop_result h ui ce names, None)"
proof -
  have "\<forall>n\<in>set (requested names). recoverable (get_llm_api h ui ce) n"
    using assms by (simp add: loop_recoverable_def list_all_iff)
  then show ?thesis
    by (simp add: collect_apis_recoverable loop_result_def resolved_apis_def loop_errors_def)
qed

lemma loop_result_simps:
  "api_instances (loop_result h ui ce names) = resolved_apis h ui ce names"
  "all_tools (loop_result h ui ce names) = concat (map tools (resolved_apis h ui ce names))"
  "api_prompts (loop_result h ui ce names) = concat (map fragment (resolved_apis h ui ce names))"
  "logged (loop_result h ui ce names) = loop_errors h ui ce names"
  by (simp_all add: loop_result_def)

lemma unpack_prompt_with: "unpack_prompt (prompt_with obj t) = Inr (obj, t)"
  by (cases obj) simp_all


lemma build_prompt_sole_custom_failed:
  assumes "api_instances c = [a]" and "api a = CustomLLMAPI"
    and "api_prompt_again h a = Inl e"
  shows "build_prompt h ui ce cl c =
     (if is_TemplateError e then
        ([LogErrorRenderingPrompt e],
         Inl (ConverseError ''Error rendering prompt'' (conversation_id cl)
                (template_error_response ui)))
      else ([], Inl (Raise e)))"
  using assms by (simp add: build_prompt_def try_build_prompt_def has_custom_api_def)

lemma render_base_prompt_with:
  assumes "async_get_base_prompt h (make_prompt_context h ui) ce = Inr (prompt_with obj t)"
  shows "render_base h ui ce = Inr (obj, t)"
  using assms by (simp add: render_base_def unpack_prompt_with)

lemma build_prompt_no_api:
  assumes "api_instances c = []" and "render_base h ui ce = Inr (obj, b)"
  shows "build_prompt h ui ce cl c = ([GetBasePrompt (make_prompt_context h ui)], Inr (obj, b))"
  using assms by (simp add: build_prompt_def try_build_prompt_def has_custom_api_def)

lemma combines_branch:
  assumes "combines insts"
  shows "\<not> (has_custom_api insts \<and> length insts = 1)" and "insts \<noteq> []"
proof -
  show "insts \<noteq> []" using assms by (auto simp: combines_def)
  show "\<not> (has_custom_api insts \<and> length insts = 1)"
  proof
    assume h: "has_custom_api insts \<and> length insts = 1"
    then obtain a where "insts = [a]" by (cases insts) auto
    then show False using h assms by (simp add: combines_def has_custom_api_def)
  qed
qed

lemma build_prompt_combined:
  assumes "combines (api_instances c)" and "render_base h ui ce = Inr (obj, b)"
  shows "build_prompt h ui ce cl c =
     ([GetBasePrompt (make_prompt_context h ui)], Inr (obj, join newline (b # api_prompts c)))"
  using combines_branch [OF assms(1)] assms(2)
  by (auto simp: build_prompt_def try_build_prompt_def)

lemma build_prompt_template_error:
  assumes "\<not> (has_custom_api (api_instances c) \<and> length (api_instances c) = 1)"
    and "async_get_base_prompt h (make_prompt_context h ui) ce = Inl (TemplateError m)"
  shows "build_prompt h ui ce cl c =
     ([GetBasePrompt (make_prompt_context h ui), LogErrorRenderingPrompt (TemplateError m)],
      Inl (ConverseError ''Error rendering prompt'' (conversation_id cl)
             (template_error_response ui)))"
  using assms by (auto simp: build_prompt_def try_build_prompt_def render_base_def)

lemma publish_nonempty:
  assumes "content cl \<noteq> []"
  shows "publish h ui cl c evs obj prompt0 =
     ((cl\<lparr>llm_api := combine_apis (make_llm_context h ui) (final_prompt ui cl prompt0) c,
          extra_system_prompt := select_extra ui cl,
          content := SystemContent (final_prompt ui cl prompt0) # tl (content cl)\<rparr>,
       evs @ (if truthy (select_extra ui cl) then [UpdateCurrentTrace [''extra_system_prompt'']] else [])
         @ [TraceAppend (SystemContent (final_prompt ui cl prompt0) # tl (content cl))
              (map_option tools (combine_apis (make_llm_context h ui) (final_prompt ui cl prompt0) c))]),
      Inr obj)"
  using assms by (cases "content cl") (simp_all add: publish_def Let_def final_prompt_def)

lemma publish_empty:
  assumes "content cl = []"
  shows "publish h ui cl c evs obj prompt0 =
     ((cl\<lparr>llm_api := combine_apis (make_llm_context h ui) (final_prompt ui cl prompt0) c,
          extra_system_prompt := select_extra ui cl\<rparr>,
       evs @ (if truthy (select_extra ui cl) then [UpdateCurrentTrace [''extra_system_prompt'']] else [])),
      Inl (Raise (IndexError ''list assignment index out of range'')))"
  using assms by (simp add: publish_def Let_def final_prompt_def)

lemma turn_built:
  assumes "collect_apis (get_llm_api h ui ce) names = (c, None)"
    and "build_prompt h ui ce cl c = (evs, Inr (obj, prompt0))"
  shows "async_update_llm_data h ui ce cl names = publish h ui cl c (logged c @ evs) obj prompt0"
  using assms by (simp add: async_update_llm_data_def)

lemma turn_not_built:
  assumes "collect_apis (get_llm_api h ui ce) names = (c, None)"
    and "build_prompt h ui ce cl c = (evs, Inl r)"
  shows "async_update_llm_data h ui ce cl names = ((cl, logged c @ evs), Inl r)"
  using assms by (simp add: async_update_llm_data_def)

section \<open>Facts about the example turns\<close>

lemma ex_get_llm_api:
  "get_llm_api ex_hass ui ce n =
     (if n = ''custom'' then Inr ex_custom
      else if n = ''weather'' then Inr ex_weather
      else if n = ''silent'' then Inr ex_silent
      else Inl (HomeAssistantError ''not found''))"
  by (simp add: get_llm_api_def ex_hass_def)

lemma ex_failure:
  "failure (get_llm_api ex_hass ui ce) n =
     (if n = ''custom'' then None
      else if n = ''weather'' then None
      else if n = ''silent'' then Some (HomeAssistantError ''no prompt'')
      else Some (HomeAssistantError ''not found''))"
  by (simp add: failure_def ex_get_llm_api ex_custom_def ex_weather_def ex_silent_def)

lemma ex_recoverable: "recoverable (get_llm_api ex_hass ui ce) n"
  by (simp add: recoverable_def ex_failure)

lemma ex_loop_recoverable: "loop_recoverable ex_hass ui ce names"
  by (simp add: loop_recoverable_def list_all_iff ex_recoverable)

lemma ex_render_base: "render_base ex_hass ui ce = Inr (None, ''Base.'')"
  by (simp add: render_base_def ex_hass_def)

section \<open>Turns that differ only in the accumulators\<close>

lemma build_prompt_cong:
  assumes "api_instances c = api_instances c'" and "api_prompts c = api_prompts c'"
  shows "build_prompt h ui ce cl c = build_prompt h ui ce cl c'"
  unfolding build_prompt_def try_build_prompt_def assms by (rule refl)

lemma combine_apis_cong:
  assumes "api_instances c = api_instances c'" and "all_tools c = all_tools c'"
  shows "combine_apis lc p c = combine_apis lc p c'"
  using assms by (simp add: combine_apis_def)

lemma publish_prefix:
  assumes "api_instances c = api_instances c'" and "all_tools c = all_tools c'"
  shows "publish h ui cl c (es @ evs) obj p =
     (case publish h ui cl c' evs obj p of ((cl1, evs1), out) \<Rightarrow> ((cl1, es @ evs1), out))"
  using combine_apis_cong [OF assms]
  by (cases "content cl") (simp_all add: publish_def Let_def)

lemma error_line_logged:
  assumes "n \<in> set ns" and "get n = Inl e"
  shows "LogErrorGettingAPI n e \<in> set (error_lines get ns)"
  using assms by (auto simp: error_lines_def failure_def intro!: bexI [of _ n])

lemma all_failed_resolved:
  assumes "list_all (\<lambda>n. isl (get n)) ns"
  shows "resolved get ns = []"
  using assms by (simp add: resolved_def list_all_iff)

lemma all_failed_turn:
  assumes rec: "loop_recoverable h ui ce names"
    and fail: "list_all (\<lambda>n. isl (get_llm_api h ui ce n)) (requested names)"
  shows "async_update_llm_data h ui ce cl names =
     (case async_update_llm_data h ui ce cl (Some []) of
        ((cl1, evs), out) \<Rightarrow> ((cl1, loop_errors h ui ce names @ evs), out))"
proof -
  let ?c = "loop_result h ui ce names"
  have c: "collect_apis (get_llm_api h ui ce) names = (?c, None)"
    by (rule collect_apis_loop_result [OF rec])
  have e: "collect_apis (get_llm_api h ui ce) (Some []) = (no_apis, None)"
    by (simp add: collect_apis_def)
  have r: "resolved_apis h ui ce names = []"
    using all_failed_resolved [OF fail] by (simp add: resolved_apis_def)
  have i: "api_instances ?c = api_instances no_apis" "api_prompts ?c = api_prompts no_apis"
    "all_tools ?c = all_tools no_apis"
    by (simp_all add: loop_result_def r no_apis_def)
  have b: "build_prompt h ui ce cl ?c = build_prompt h ui ce cl no_apis"
    by (rule build_prompt_cong [OF i(1) i(2)])
  have l: "logged ?c = loop_errors h ui ce names" "logged no_apis = []"
    by (simp_all add: loop_result_def no_apis_def)
  show ?thesis
  proof (cases "build_prompt h ui ce cl no_apis")
    case (Pair evs res)
    show ?thesis
    proof (cases res)
      case (Inl x)
      then show ?thesis
        using Pair b by (simp add: async_update_llm_data_def c e l)
    next
      case (Inr y)
      obtain obj p where y: "y = (obj, p)" by (cases y)
      show ?thesis
        using Pair b Inr y publish_prefix [OF i(1) i(3), of h ui cl "loop_errors h ui ce names" evs obj p]
        by (simp add: async_update_llm_data_def c e l)
    qed
  qed
qed

section \<open>Turns that publish\<close>

lemma turn_published:
  assumes "collect_apis (get_llm_api h ui ce) names = (c, None)"
    and "build_prompt h ui ce cl c = (evs, Inr (obj, prompt0))"
    and "content cl \<noteq> []"
  shows "async_update_llm_data h ui ce cl names =
     ((cl\<lparr>llm_api := combine_apis (make_llm_context h ui) (final_prompt ui cl prompt0) c,
          extra_system_prompt := select_extra ui cl,
          content := SystemContent (final_prompt ui cl prompt0) # tl (content cl)\<rparr>,
       (logged c @ evs)
         @ (if truthy (select_extra ui cl) then [UpdateCurrentTrace [''extra_system_prompt'']] else [])
         @ [TraceAppend (SystemContent (final_prompt ui cl prompt0) # tl (content cl))
              (map_option tools (combine_apis (make_llm_context h ui) (final_prompt ui cl prompt0) c))]),
      Inr obj)"
  unfolding turn_built [OF assms(1) assms(2)] publish_nonempty [OF assms(3)] by (rule refl)

lemma turn_published_parts:
  assumes "collect_apis (get_llm_api h ui ce) names = (c, None)"
    and "build_prompt h ui ce cl c = (evs, Inr (obj, prompt0))"
    and "content cl \<noteq> []"
  shows "content (chat_log_after (async_update_llm_data h ui ce cl names)) =
           SystemContent (final_prompt ui cl prompt0) # tl (content cl)"
    and "extra_system_prompt (chat_log_after (async_update_llm_data h ui ce cl names)) =
           select_extra ui cl"
    and "llm_api (chat_log_after (async_update_llm_data h ui ce cl names)) =
           combine_apis (make_llm_context h ui) (final_prompt ui cl prompt0) c"
    and "outcome_of (async_update_llm_data h ui ce cl names) = Inr obj"
  unfolding turn_published [OF assms] chat_log_after_def outcome_of_def by simp_all

lemma final_prompt_extra:
  assumes "select_extra ui cl = Some x" and "x \<noteq> []"
  shows "final_prompt ui cl p = p @ newline @ x"
  using assms by (simp add: final_prompt_def append_extra_def)

lemma error_lines_no_trace: "filter is_trace_event (error_lines get ns) = []"
  by (induction ns) (simp_all add: error_lines_def split: option.splits)


lemma length_fragment: "length (fragment a) \<le> 1"
  by (simp add: fragment_def split: sum.splits)

lemma length_fragments_le: "length (concat (map fragment rs)) \<le> length rs"
proof (induction rs)
  case Nil
  show ?case by simp
next
  case (Cons r rs)
  show ?case using Cons.IH length_fragment [of r] by simp
qed

lemma length_fragments_less:
  assumes "a \<in> set rs" and "fragment a = []"
  shows "length (concat (map fragment rs)) < length rs"
  using assms
proof (induction rs)
  case Nil
  then show ?case by simp
next
  case (Cons r rs)
  show ?case
  proof (cases "a = r")
    case True
    then show ?thesis using Cons.prems(2) length_fragments_le [of rs] by simp
  next
    case False
    then have "length (concat (map fragment rs)) < length rs" using Cons by simp
    then show ?thesis using length_fragment [of r] by simp
  qed
qed

section \<open>More facts about the example turns\<close>

lemma ex_collect:
  "collect_apis (get_llm_api ex_hass ui ce) names = (loop_result ex_hass ui ce names, None)"
  by (rule collect_apis_loop_result [OF ex_loop_recoverable])

lemma ex_resolved_weather: "resolved_apis ex_hass ui ce (Some [''weather'']) = [ex_weather]"
  by (simp add: resolved_apis_def resolved_def requested_def ex_get_llm_api)

lemma ex_resolved_silent: "resolved_apis ex_hass ui ce (Some [''silent'']) = [ex_silent]"
  by (simp add: resolved_apis_def resolved_def requested_def ex_get_llm_api)


lemma ex_resolved_two:
  "resolved_apis ex_hass ui ce (Some [''custom'', ''bad'', ''weather'']) = [ex_custom, ex_weather]"
  by (simp add: resolved_apis_def resolved_def requested_def ex_get_llm_api)

lemma ex_resolved_three:
  "resolved_apis ex_hass ui ce (Some [''silent'', ''bad'', ''weather'']) = [ex_silent, ex_weather]"
  by (simp add: resolved_apis_def resolved_def requested_def ex_get_llm_api)

lemma ex_fragments:
  "fragment ex_weather = [''Tools: weather.'']"
  "fragment ex_custom = [''Custom complete prompt.'']"
  "fragment ex_silent = []"
  by (simp_all add: fragment_def ex_weather_def ex_custom_def ex_silent_def)

lemma ex_apis:
  "api ex_weather = API ''weather''" "api ex_silent = API ''silent''" "api ex_custom = CustomLLMAPI"
  by (simp_all add: ex_weather_def ex_custom_def ex_silent_def)

lemma ex_tools:
  "tools ex_weather = [''forecast'']" "tools ex_silent = [''ping'']"
  "tools ex_custom = [''turn_on'', ''turn_off'']"
  by (simp_all add: ex_weather_def ex_custom_def ex_silent_def)

lemma ex_prompt_context:
  "make_prompt_context ex_hass ex_input = \<lparr>ha_name = ''Home'', user_name = None\<rparr>"
  "make_prompt_context ex_hass ex_input_extra = \<lparr>ha_name = ''Home'', user_name = None\<rparr>"
  by (simp_all add: make_prompt_context_def get_user_name_def ex_hass_def ex_input_def
      ex_input_extra_def)

lemma ex_build_weather:
  "build_prompt ex_hass ui ce cl (loop_result ex_hass ui ce (Some [''weather''])) =
     ([GetBasePrompt (make_prompt_context ex_hass ui)],
      Inr (None, ''Base.\<newline>Tools: weather.''))"
proof -
  have c: "combines (api_instances (loop_result ex_hass ui ce (Some [''weather''])))"
    by (simp add: loop_result_simps ex_resolved_weather combines_def ex_apis)
  show ?thesis
    unfolding build_prompt_combined [OF c ex_render_base]
    by (simp add: loop_result_simps ex_resolved_weather ex_fragments newline_def)
qed

lemma ex_contents:
  "content ex_chat_log = [SystemContent ''old'', UserContent ''hello'']"
  "content ex_chat_log_stored = [SystemContent ''old'', UserContent ''hello'']"
  "extra_system_prompt ex_chat_log = None"
  "extra_system_prompt ex_chat_log_stored = Some ''Speak French.''"
  "in_extra_system_prompt ex_input = None"
  "in_extra_system_prompt ex_input_extra = Some ''Be brief.''"
  by (simp_all add: ex_chat_log_def ex_chat_log_stored_def ex_input_def ex_input_extra_def)

section \<open>The combining branch and the branch of the custom API alone\<close>

lemma combined_turn:
  assumes rec: "loop_recoverable h ui ce names"
    and shape: "combines (resolved_apis h ui ce names)"
    and base: "render_base h ui ce = Inr (obj, b)"
  shows "collect_apis (get_llm_api h ui ce) names = (loop_result h ui ce names, None)"
    and "build_prompt h ui ce cl (loop_result h ui ce names) =
      ([GetBasePrompt (make_prompt_context h ui)],
       Inr (obj, join newline (b # concat (map fragment (resolved_apis h ui ce names)))))"
proof -
  show "collect_apis (get_llm_api h ui ce) names = (loop_result h ui ce names, None)"
    by (rule collect_apis_loop_result [OF rec])
  have s: "combines (api_instances (loop_result h ui ce names))"
    using shape by (simp add: loop_result_simps)
  show "build_prompt h ui ce cl (loop_result h ui ce names) =
      ([GetBasePrompt (make_prompt_context h ui)],
       Inr (obj, join newline (b # concat (map fragment (resolved_apis h ui ce names)))))"
    unfolding build_prompt_combined [OF s base] by (simp add: loop_result_simps)
qed


lemma base_prompt_irrelevant_to_user:
  "get_user_name (h\<lparr>async_get_base_prompt := f\<rparr>) ui = get_user_name h ui"
  by (simp add: get_user_name_def split: option.splits)

lemma base_prompt_irrelevant_to_loop:
  "get_llm_api (h\<lparr>async_get_base_prompt := f\<rparr>) ui ce = get_llm_api h ui ce"
  "make_llm_context (h\<lparr>async_get_base_prompt := f\<rparr>) ui = make_llm_context h ui"
  by (simp_all add: get_llm_api_def make_llm_context_def base_prompt_irrelevant_to_user fun_eq_iff)

lemma base_prompt_irrelevant_to_summary:
  "loop_recoverable (h\<lparr>async_get_base_prompt := f\<rparr>) ui ce names = loop_recoverable h ui ce names"
  "resolved_apis (h\<lparr>async_get_base_prompt := f\<rparr>) ui ce names = resolved_apis h ui ce names"
  "loop_errors (h\<lparr>async_get_base_prompt := f\<rparr>) ui ce names = loop_errors h ui ce names"
  by (simp_all add: loop_recoverable_def resolved_apis_def loop_errors_def
      base_prompt_irrelevant_to_loop)

lemma sole_custom_failed_turn:
  assumes "loop_recoverable h ui ce names"
    and "resolved_apis h ui ce names = [a]"
    and "api a = CustomLLMAPI"
    and "api_prompt_again h a = Inl e"
  shows "async_update_llm_data h ui ce cl names =
           ((cl, loop_errors h ui ce names
                 @ (if is_TemplateError e then [LogErrorRenderingPrompt e] else [])),
            Inl (if is_TemplateError e
                 then ConverseError ''Error rendering prompt'' (conversation_id cl)
                        (template_error_response ui)
                 else Raise e))"
proof -
  have c: "collect_apis (get_llm_api h ui ce) names = (loop_result h ui ce names, None)"
    by (rule collect_apis_loop_result [OF assms(1)])
  have i: "api_instances (loop_result h ui ce names) = [a]"
    by (simp add: loop_result_simps assms(2))
  note b = build_prompt_sole_custom_failed [OF i assms(3) assms(4), of ui ce cl]
  show ?thesis
  proof (cases "is_TemplateError e")
    case True
    have b': "build_prompt h ui ce cl (loop_result h ui ce names) =
        ([LogErrorRenderingPrompt e],
         Inl (ConverseError ''Error rendering prompt'' (conversation_id cl)
                (template_error_response ui)))"
      using b True by simp
    show ?thesis unfolding turn_not_built [OF c b'] using True by (simp add: loop_result_simps)
  next
    case False
    have b': "build_prompt h ui ce cl (loop_result h ui ce names) = ([], Inl (Raise e))"
      using b False by simp
    show ?thesis unfolding turn_not_built [OF c b'] using False by (simp add: loop_result_simps)
  qed
qed

lemma api_prompt_again_irrelevant_to_user:
  "get_user_name (h\<lparr>api_prompt_again := g\<rparr>) ui = get_user_name h ui"
  by (simp add: get_user_name_def split: option.splits)

lemma api_prompt_again_irrelevant_to_loop:
  "get_llm_api (h\<lparr>api_prompt_again := g\<rparr>) ui ce = get_llm_api h ui ce"
  by (simp add: get_llm_api_def make_llm_context_def api_prompt_again_irrelevant_to_user fun_eq_iff)

lemma api_prompt_again_irrelevant_to_summary:
  "loop_recoverable (h\<lparr>api_prompt_again := g\<rparr>) ui ce names = loop_recoverable h ui ce names"
  "resolved_apis (h\<lparr>api_prompt_again := g\<rparr>) ui ce names = resolved_apis h ui ce names"
  "loop_errors (h\<lparr>api_prompt_again := g\<rparr>) ui ce names = loop_errors h ui ce names"
  by (simp_all add: loop_recoverable_def resolved_apis_def loop_errors_def
      api_prompt_again_irrelevant_to_loop)

section \<open>The example turns with a failing template\<close>

lemma ex_bad_template_summary:
  "loop_recoverable ex_hass_bad_template ui ce names"
  "resolved_apis ex_hass_bad_template ui ce names = resolved_apis ex_hass ui ce names"
  "loop_errors ex_hass_bad_template ui ce names = loop_errors ex_hass ui ce names"
  "make_prompt_context ex_hass_bad_template ex_input = \<lparr>ha_name = ''Home'', user_name = None\<rparr>"
  "async_get_base_prompt ex_hass_bad_template pc ce = Inl (TemplateError ''bad template'')"
  unfolding ex_hass_bad_template_def
  by (simp_all add: base_prompt_irrelevant_to_summary ex_loop_recoverable make_prompt_context_def
      base_prompt_irrelevant_to_user get_user_name_def ex_input_def, simp add: ex_hass_def)

lemma ex_loop_errors:
  "loop_errors ex_hass ui ce (Some [''weather'']) = []"
  "loop_errors ex_hass ui ce (Some [''custom'']) = []"
  "loop_errors ex_hass ui ce (Some [''silent'']) =
     [LogErrorGettingAPI ''silent'' (HomeAssistantError ''no prompt'')]"
  "loop_errors ex_hass ui ce (Some [''custom'', ''bad'', ''weather'']) =
     [LogErrorGettingAPI ''bad'' (HomeAssistantError ''not found'')]"
  "loop_errors ex_hass ui ce (Some [''silent'', ''bad'', ''weather'']) =
     [LogErrorGettingAPI ''silent'' (HomeAssistantError ''no prompt''),
      LogErrorGettingAPI ''bad'' (HomeAssistantError ''not found'')]"
  "loop_errors ex_hass ui ce None = []"
  by (simp_all add: loop_errors_def error_lines_def requested_def ex_failure)

lemma ex_selected:
  "select_extra ex_input ex_chat_log = None"
  "select_extra ex_input_extra ex_chat_log = Some ''Be brief.''"
  by (simp_all add: select_extra_def py_or_def ex_contents)

lemma ex_llm_context: "make_llm_context ex_hass ex_input = ex_context"
  "make_llm_context ex_hass ex_input_extra = ex_context"
  by (simp_all add: make_llm_context_def ex_hass_def ex_input_def ex_input_extra_def ex_context_def)

section \<open>The example turns with several APIs and with a custom API without prompt\<close>

lemma ex_build_two:
  "build_prompt ex_hass ui ce cl (loop_result ex_hass ui ce (Some [''custom'', ''bad'', ''weather''])) =
     ([GetBasePrompt (make_prompt_context ex_hass ui)],
      Inr (None, ''Base.\<newline>Custom complete prompt.\<newline>Tools: weather.''))"
proof -
  have c: "combines (api_instances (loop_result ex_hass ui ce (Some [''custom'', ''bad'', ''weather''])))"
    by (simp add: loop_result_simps ex_resolved_two combines_def)
  show ?thesis
    unfolding build_prompt_combined [OF c ex_render_base]
    by (simp add: loop_result_simps ex_resolved_two ex_fragments newline_def)
qed

lemma ex_custom_silent_get:
  "get_llm_api ex_hass_custom_silent ui ce n =
     (if n = ''custom'' then Inr ex_custom_silent else get_llm_api ex_hass ui ce n)"
  by (simp add: get_llm_api_def ex_hass_custom_silent_def ex_hass_def make_llm_context_def
      get_user_name_def split: option.splits)

lemma ex_custom_silent_facts:
  "api ex_custom_silent = CustomLLMAPI"
  "api_prompt ex_custom_silent = Inl (HomeAssistantError ''no prompt'')"
  "tools ex_custom_silent = [''turn_on'', ''turn_off'']"
  by (simp_all add: ex_custom_silent_def)

lemma ex_custom_silent_loop:
  "loop_recoverable ex_hass_custom_silent ui ce (Some [''custom''])"
  "resolved_apis ex_hass_custom_silent ui ce (Some [''custom'']) = [ex_custom_silent]"
  "loop_errors ex_hass_custom_silent ui ce (Some [''custom'']) =
     [LogErrorGettingAPI ''custom'' (HomeAssistantError ''no prompt'')]"
  by (simp_all add: loop_recoverable_def recoverable_def failure_def requested_def
      resolved_apis_def resolved_def loop_errors_def error_lines_def
      ex_custom_silent_get ex_custom_silent_facts)

lemma ex_custom_silent_again:
  "api_prompt_again ex_hass_custom_silent a = api_prompt a"
  "api_prompt_again ex_hass_custom_reused a =
     Inl (OtherError ''cannot reuse already awaited coroutine'')"
  "api_prompt_again ex_hass a = api_prompt a"
  by (simp_all add: ex_hass_custom_silent_def ex_hass_custom_reused_def ex_hass_def)

lemma ex_custom_reused_loop:
  "loop_recoverable ex_hass_custom_reused ui ce (Some [''custom''])"
  "resolved_apis ex_hass_custom_reused ui ce (Some [''custom'']) = [ex_custom_silent]"
  "loop_errors ex_hass_custom_reused ui ce (Some [''custom'']) =
     [LogErrorGettingAPI ''custom'' (HomeAssistantError ''no prompt'')]"
  unfolding ex_hass_custom_reused_def
  by (simp_all add: api_prompt_again_irrelevant_to_summary ex_custom_silent_loop)





lemma ex_base_pair_summary:
  "loop_recoverable ex_hass_base_pair ui ce names"
  "resolved_apis ex_hass_base_pair ui ce names = resolved_apis ex_hass ui ce names"
  "loop_errors ex_hass_base_pair ui ce names = loop_errors ex_hass ui ce names"
  unfolding ex_hass_base_pair_def
  by (simp_all add: base_prompt_irrelevant_to_summary ex_loop_recoverable)

section \<open>A failed prompt on the paths that combine\<close>

text \<open>
  An instance resolves and awaiting its prompt in the loop raises a
  \<open>HomeAssistantError\<close>. When it is not the custom API resolved alone, the turn goes on:
  the instance stays among the resolved ones, its tools are among the tools of the
  installed instance (which is the instance itself when it is the only one), and the built
  prompt has no part for it.
\<close>

lemma failed_prompt_keeps_tools:
  assumes "loop_recoverable h ui ce names"
    and "a \<in> set (resolved_apis h ui ce names)"
    and "api_prompt a = Inl e"
    and "2 \<le> length (resolved_apis h ui ce names) \<or> api a \<noteq> CustomLLMAPI"
    and "render_base h ui ce = Inr (obj, b)"
    and "content cl \<noteq> []"
  shows "fragment a = []
       \<and> build_prompt h ui ce cl (fst (collect_apis (get_llm_api h ui ce) names)) =
           ([GetBasePrompt (make_prompt_context h ui)],
            Inr (obj, join newline (b # concat (map fragment (resolved_apis h ui ce names)))))
       \<and> length (concat (map fragment (resolved_apis h ui ce names)))
           < length (resolved_apis h ui ce names)
       \<and> map_option tools (llm_api (chat_log_after (async_update_llm_data h ui ce cl names))) =
           Some (concat (map tools (resolved_apis h ui ce names)))
       \<and> llm_api (chat_log_after (async_update_llm_data h ui ce cl names)) =
           Some (if length (resolved_apis h ui ce names) = 1 then a
                 else \<lparr>api = api (hd (resolved_apis h ui ce names)),
                       api_prompt =
                         Inr (Str (append_extra
                           (join newline (b # concat (map fragment (resolved_apis h ui ce names))))
                           (select_extra ui cl))),
                       llm_context = make_llm_context h ui,
                       tools = concat (map tools (resolved_apis h ui ce names)),
                       custom_serializer = Some selector_serializer\<rparr>)
       \<and> outcome_of (async_update_llm_data h ui ce cl names) = Inr obj"
proof -
  let ?rs = "resolved_apis h ui ce names"
  have f: "fragment a = []" by (simp add: fragment_def assms(3))
  have ne: "?rs \<noteq> []" using assms(2) by auto
  have one: "length ?rs = 1 \<Longrightarrow> ?rs = [a]"
  proof -
    assume "length ?rs = 1"
    then obtain x where x: "?rs = [x]" by (cases ?rs) auto
    then show "?rs = [a]" using assms(2) by simp
  qed
  have s: "combines ?rs"
  proof (cases "2 \<le> length ?rs")
    case True
    then show ?thesis by (simp add: combines_def)
  next
    case False
    then have l: "length ?rs = 1" using ne by (cases ?rs) (simp_all add: not_le)
    show ?thesis using False assms(4) one [OF l] by (simp add: combines_def)
  qed
  note t = combined_turn [OF assms(1) s assms(5)]
  note p = turn_published_parts [OF t(1) t(2) assms(6)]
  have tl: "map_option tools (combine_apis lc pr (loop_result h ui ce names)) =
      Some (concat (map tools ?rs))" for lc pr
  proof (cases "length ?rs = 1")
    case True
    show ?thesis using one [OF True] True by (simp add: combine_apis_def loop_result_simps)
  next
    case False
    show ?thesis using False ne by (simp add: combine_apis_def loop_result_simps)
  qed
  have ap: "combine_apis lc pr (loop_result h ui ce names) =
      Some (if length ?rs = 1 then a
            else \<lparr>api = api (hd ?rs), api_prompt = Inr (Str pr), llm_context = lc,
                  tools = concat (map tools ?rs),
                  custom_serializer = Some selector_serializer\<rparr>)" for lc pr
  proof (cases "length ?rs = 1")
    case True
    show ?thesis using one [OF True] by (simp add: combine_apis_def loop_result_simps)
  next
    case False
    show ?thesis using False ne by (simp add: combine_apis_def loop_result_simps)
  qed
  have c2: "build_prompt h ui ce cl (fst (collect_apis (get_llm_api h ui ce) names)) =
      ([GetBasePrompt (make_prompt_context h ui)],
       Inr (obj, join newline (b # concat (map fragment ?rs))))"
    by (simp add: t)
  have c3: "length (concat (map fragment ?rs)) < length ?rs"
    by (rule length_fragments_less [OF assms(2) f])
  have c4: "map_option tools (llm_api (chat_log_after (async_update_llm_data h ui ce cl names))) =
      Some (concat (map tools ?rs))"
    by (simp add: p(3) tl)
  have c5: "llm_api (chat_log_after (async_update_llm_data h ui ce cl names)) =
      Some (if length ?rs = 1 then a
            else \<lparr>api = api (hd ?rs),
                  api_prompt =
                    Inr (Str (append_extra (join newline (b # concat (map fragment ?rs)))
                      (select_extra ui cl))),
                  llm_context = make_llm_context h ui,
                  tools = concat (map tools ?rs),
                  custom_serializer = Some selector_serializer\<rparr>)"
    unfolding p(3) ap final_prompt_def by (rule refl)
  show ?thesis
    by (intro conjI) (rule f c2 c3 c4 c5 p(4))+
qed

lemma failed_prompt_keeps_tools_example:
  "loop_recoverable ex_hass ex_input ex_entry (Some [''silent'', ''bad'', ''weather''])
   \<and> ex_silent \<in> set (resolved_apis ex_hass ex_input ex_entry (Some [''silent'', ''bad'', ''weather'']))
   \<and> api_prompt ex_silent = Inl (HomeAssistantError ''no prompt'')
   \<and> (2 \<le> length (resolved_apis ex_hass ex_input ex_entry (Some [''silent'', ''bad'', ''weather'']))
        \<or> api ex_silent \<noteq> CustomLLMAPI)
   \<and> render_base ex_hass ex_input ex_entry = Inr (None, ''Base.'')
   \<and> content ex_chat_log \<noteq> []
   \<and> build_prompt ex_hass ex_input ex_entry ex_chat_log
       (fst (collect_apis (get_llm_api ex_hass ex_input ex_entry)
          (Some [''silent'', ''bad'', ''weather'']))) =
       ([GetBasePrompt \<lparr>ha_name = ''Home'', user_name = None\<rparr>],
        Inr (None, ''Base.\<newline>Tools: weather.''))
   \<and> map_option tools (llm_api (chat_log_after (async_update_llm_data ex_hass ex_input ex_entry
         ex_chat_log (Some [''silent'', ''bad'', ''weather''])))) =
       Some [''ping'', ''forecast'']
   \<and> map_option api (llm_api (chat_log_after (async_update_llm_data ex_hass ex_input ex_entry
         ex_chat_log (Some [''silent'', ''bad'', ''weather''])))) =
       Some (API ''silent'')"
proof -
  have 2: "ex_silent \<in> set (resolved_apis ex_hass ex_input ex_entry (Some [''silent'', ''bad'', ''weather'']))"
    by (simp add: ex_resolved_three)
  have 3: "api_prompt ex_silent = Inl (HomeAssistantError ''no prompt'')"
    by (simp add: ex_silent_def)
  have 4: "2 \<le> length (resolved_apis ex_hass ex_input ex_entry (Some [''silent'', ''bad'', ''weather'']))
        \<or> api ex_silent \<noteq> CustomLLMAPI"
    by (simp add: ex_resolved_three)
  have 6: "content ex_chat_log \<noteq> []" by (simp add: ex_contents)
  show ?thesis
    using failed_prompt_keeps_tools [OF ex_loop_recoverable 2 3 4 ex_render_base 6] 3
    by (simp add: ex_loop_recoverable ex_render_base ex_resolved_three ex_fragments ex_apis
        ex_tools ex_contents ex_prompt_context newline_def)
qed

section \<open>Claims\<close>

text \<open>
  C1, as amended. When two or more API instances resolve, or exactly one resolves and it
  is not the custom API, and the base prompt renders, the built prompt (before the extra
  system prompt is appended) is the base prompt text followed by the prompt text of every
  resolved instance whose prompt was retrieved, in the order of resolution, the parts
  joined by one newline. An instance whose prompt could not be retrieved contributes no
  part. The counterexample after the witness is a turn with one resolved instance whose
  prompt is not retrieved: the built prompt is the base prompt alone and holds no newline.
\<close>

theorem combined_prompt_of_retrieved_fragments:
  assumes "loop_recoverable h ui ce names"
    and "2 \<le> length (resolved_apis h ui ce names)
       \<or> (length (resolved_apis h ui ce names) = 1
          \<and> api (hd (resolved_apis h ui ce names)) \<noteq> CustomLLMAPI)"
    and "render_base h ui ce = Inr (obj, b)"
    and "content cl \<noteq> []"
  shows "build_prompt h ui ce cl (fst (collect_apis (get_llm_api h ui ce) names)) =
           ([GetBasePrompt (make_prompt_context h ui)],
            Inr (obj, join newline (b # concat (map fragment (resolved_apis h ui ce names)))))
       \<and> content (chat_log_after (async_update_llm_data h ui ce cl names)) =
           SystemContent
             (append_extra (join newline (b # concat (map fragment (resolved_apis h ui ce names))))
                (select_extra ui cl))
           # tl (content cl)
       \<and> outcome_of (async_update_llm_data h ui ce cl names) = Inr obj"
proof -
  have s: "combines (resolved_apis h ui ce names)"
    using assms(2) by (simp add: combines_def)
  note t = combined_turn [OF assms(1) s assms(3)]
  note p = turn_published_parts [OF t(1) t(2) assms(4)]
  show ?thesis
    by (simp add: t p(1) p(4) final_prompt_def)
qed

theorem combined_prompt_of_retrieved_fragments_witness:
  "loop_recoverable ex_hass ex_input ex_entry (Some [''silent'', ''bad'', ''weather''])
   \<and> resolved_apis ex_hass ex_input ex_entry (Some [''silent'', ''bad'', ''weather'']) =
       [ex_silent, ex_weather]
   \<and> render_base ex_hass ex_input ex_entry = Inr (None, ''Base.'')
   \<and> content ex_chat_log \<noteq> []
   \<and> build_prompt ex_hass ex_input ex_entry ex_chat_log
       (fst (collect_apis (get_llm_api ex_hass ex_input ex_entry)
          (Some [''silent'', ''bad'', ''weather'']))) =
       ([GetBasePrompt \<lparr>ha_name = ''Home'', user_name = None\<rparr>],
        Inr (None, ''Base.\<newline>Tools: weather.''))
   \<and> content (chat_log_after (async_update_llm_data ex_hass ex_input ex_entry ex_chat_log
         (Some [''silent'', ''bad'', ''weather'']))) =
       [SystemContent ''Base.\<newline>Tools: weather.'', UserContent ''hello'']"
proof -
  have 2: "2 \<le> length (resolved_apis ex_hass ex_input ex_entry (Some [''silent'', ''bad'', ''weather'']))
       \<or> (length (resolved_apis ex_hass ex_input ex_entry (Some [''silent'', ''bad'', ''weather''])) = 1
          \<and> api (hd (resolved_apis ex_hass ex_input ex_entry (Some [''silent'', ''bad'', ''weather'']))) \<noteq> CustomLLMAPI)"
    by (simp add: ex_resolved_three)
  have 4: "content ex_chat_log \<noteq> []" by (simp add: ex_contents)
  show ?thesis
    using combined_prompt_of_retrieved_fragments [OF ex_loop_recoverable 2 ex_render_base 4]
    by (simp add: ex_loop_recoverable ex_resolved_three ex_render_base ex_contents ex_fragments
        ex_prompt_context ex_selected append_extra_def newline_def)
qed

theorem combined_prompt_counterexample:
  "resolved_apis ex_hass ex_input ex_entry (Some [''silent'']) = [ex_silent]
   \<and> api ex_silent = API ''silent''
   \<and> render_base ex_hass ex_input ex_entry = Inr (None, ''Base.'')
   \<and> build_prompt ex_hass ex_input ex_entry ex_chat_log
       (fst (collect_apis (get_llm_api ex_hass ex_input ex_entry) (Some [''silent'']))) =
       ([GetBasePrompt \<lparr>ha_name = ''Home'', user_name = None\<rparr>], Inr (None, ''Base.''))
   \<and> CHR 0x0A \<notin> set ''Base.''"
proof -
  have c: "combines (api_instances (loop_result ex_hass ex_input ex_entry (Some [''silent''])))"
    by (simp add: loop_result_simps ex_resolved_silent combines_def ex_apis)
  have b: "build_prompt ex_hass ex_input ex_entry ex_chat_log
       (loop_result ex_hass ex_input ex_entry (Some [''silent''])) =
       ([GetBasePrompt \<lparr>ha_name = ''Home'', user_name = None\<rparr>], Inr (None, ''Base.''))"
    unfolding build_prompt_combined [OF c ex_render_base]
    by (simp add: loop_result_simps ex_resolved_silent ex_fragments ex_prompt_context)
  show ?thesis
    by (simp add: ex_resolved_silent ex_apis ex_render_base ex_collect b)
qed




text \<open>
  C3. When no API instance resolves (the names are absent, empty, or every name fails with
  a \<open>HomeAssistantError\<close>) and the prompt manager returns the base prompt, plain or as a
  pair, the built prompt is the text the prompt manager returned and nothing else, the
  returned prompt object is the one of the pair, no API is installed on the chat log
  (\<open>llm_api\<close> is set to \<open>None\<close>), and the leading message is the base prompt with the
  extra system prompt appended.
\<close>

theorem no_provider_base_prompt_only:
  assumes "loop_recoverable h ui ce names"
    and "resolved_apis h ui ce names = []"
    and "async_get_base_prompt h (make_prompt_context h ui) ce = Inr (prompt_with obj b)"
    and "content cl \<noteq> []"
  shows "build_prompt h ui ce cl (fst (collect_apis (get_llm_api h ui ce) names)) =
           ([GetBasePrompt (make_prompt_context h ui)], Inr (obj, b))
       \<and> async_update_llm_data h ui ce cl names =
           ((cl\<lparr>llm_api := None,
                extra_system_prompt := select_extra ui cl,
                content := SystemContent (append_extra b (select_extra ui cl)) # tl (content cl)\<rparr>,
             loop_errors h ui ce names @ [GetBasePrompt (make_prompt_context h ui)]
               @ (if truthy (select_extra ui cl) then [UpdateCurrentTrace [''extra_system_prompt'']] else [])
               @ [TraceAppend (SystemContent (append_extra b (select_extra ui cl)) # tl (content cl)) None]),
            Inr obj)"
proof -
  let ?c = "loop_result h ui ce names"
  have c: "collect_apis (get_llm_api h ui ce) names = (?c, None)"
    by (rule collect_apis_loop_result [OF assms(1)])
  have i: "api_instances ?c = []" by (simp add: loop_result_def assms(2))
  have rb: "render_base h ui ce = Inr (obj, b)"
    by (rule render_base_prompt_with [OF assms(3)])
  have b: "build_prompt h ui ce cl ?c = ([GetBasePrompt (make_prompt_context h ui)], Inr (obj, b))"
    by (rule build_prompt_no_api [OF i rb])
  have n: "combine_apis lc p ?c = None" for lc p
    by (simp add: combine_apis_def i)
  have t: "async_update_llm_data h ui ce cl names =
      publish h ui cl ?c (logged ?c @ [GetBasePrompt (make_prompt_context h ui)]) obj b"
    by (rule turn_built [OF c b])
  show ?thesis
    unfolding t publish_nonempty [OF assms(4)] c fst_conv
    by (simp add: b n final_prompt_def loop_result_simps)
qed

theorem no_provider_base_prompt_only_witness:
  "loop_recoverable ex_hass_base_pair ex_input ex_entry (Some [''bad''])
   \<and> resolved_apis ex_hass_base_pair ex_input ex_entry (Some [''bad'']) = []
   \<and> async_get_base_prompt ex_hass_base_pair (make_prompt_context ex_hass_base_pair ex_input)
       ex_entry = Inr (Tuple2 ''lf-3'' ''Base.'')
   \<and> content ex_chat_log \<noteq> []
   \<and> async_update_llm_data ex_hass_base_pair ex_input ex_entry ex_chat_log (Some [''bad'']) =
       ((ex_chat_log\<lparr>llm_api := None, extra_system_prompt := None,
                     content := [SystemContent ''Base.'', UserContent ''hello'']\<rparr>,
         [LogErrorGettingAPI ''bad'' (HomeAssistantError ''not found''),
          GetBasePrompt \<lparr>ha_name = ''Home'', user_name = None\<rparr>,
          TraceAppend [SystemContent ''Base.'', UserContent ''hello''] None]),
        Inr (Some ''lf-3''))"
proof -
  have l: "loop_recoverable ex_hass_base_pair ex_input ex_entry (Some [''bad''])"
    by (simp add: ex_base_pair_summary)
  have r: "resolved_apis ex_hass_base_pair ex_input ex_entry (Some [''bad'']) = []"
    unfolding ex_base_pair_summary
    by (simp add: resolved_apis_def resolved_def requested_def ex_get_llm_api)
  have p: "make_prompt_context ex_hass_base_pair ex_input = \<lparr>ha_name = ''Home'', user_name = None\<rparr>"
    by (simp add: make_prompt_context_def get_user_name_def ex_hass_base_pair_def ex_hass_def
        ex_input_def)
  have g: "async_get_base_prompt ex_hass_base_pair (make_prompt_context ex_hass_base_pair ex_input)
      ex_entry = Inr (prompt_with (Some ''lf-3'') ''Base.'')"
    by (simp add: ex_hass_base_pair_def)
  have c: "content ex_chat_log \<noteq> []" by (simp add: ex_chat_log_def)
  have s: "select_extra ex_input ex_chat_log = None"
    by (simp add: select_extra_def py_or_def ex_input_def ex_chat_log_def)
  have e: "loop_errors ex_hass_base_pair ex_input ex_entry (Some [''bad'']) =
      [LogErrorGettingAPI ''bad'' (HomeAssistantError ''not found'')]"
    unfolding ex_base_pair_summary
    by (simp add: loop_errors_def error_lines_def requested_def ex_failure)
  have t: "tl (content ex_chat_log) = [UserContent ''hello'']" by (simp add: ex_chat_log_def)
  show ?thesis
    using no_provider_base_prompt_only [OF l r g c] g
    by (simp add: l r c s e p t append_extra_def)
qed

text \<open>
  C4. When every exception raised in the loop is a \<open>HomeAssistantError\<close>, the loop ends
  normally, the collected instances are those of the names that resolve, in the order of
  the names and one per occurrence, every failed resolution has its error line, and a
  turn in which every name fails ends as the turn with no names does, the error lines
  apart.
\<close>

theorem failed_names_dropped_in_order:
  assumes "loop_recoverable h ui ce names"
  shows "snd (collect_apis (get_llm_api h ui ce) names) = None
       \<and> api_instances (fst (collect_apis (get_llm_api h ui ce) names)) =
           map (projr \<circ> get_llm_api h ui ce)
             (filter (\<lambda>n. \<not> isl (get_llm_api h ui ce n)) (requested names))
       \<and> (\<forall>n\<in>set (requested names). \<forall>e. get_llm_api h ui ce n = Inl e \<longrightarrow>
             LogErrorGettingAPI n e \<in> set (logged (fst (collect_apis (get_llm_api h ui ce) names))))
       \<and> (list_all (\<lambda>n. isl (get_llm_api h ui ce n)) (requested names) \<longrightarrow>
             async_update_llm_data h ui ce cl names =
               (case async_update_llm_data h ui ce cl (Some []) of
                  ((cl1, evs), out) \<Rightarrow>
                    ((cl1, logged (fst (collect_apis (get_llm_api h ui ce) names)) @ evs), out))
           \<and> async_update_llm_data h ui ce cl (Some []) = async_update_llm_data h ui ce cl None)"
proof -
  have c: "collect_apis (get_llm_api h ui ce) names = (loop_result h ui ce names, None)"
    by (rule collect_apis_loop_result [OF assms])
  have a: "api_instances (loop_result h ui ce names) =
      map (projr \<circ> get_llm_api h ui ce)
        (filter (\<lambda>n. \<not> isl (get_llm_api h ui ce n)) (requested names))"
    by (simp add: loop_result_def resolved_apis_def resolved_def)
  have l: "logged (loop_result h ui ce names) = error_lines (get_llm_api h ui ce) (requested names)"
    by (simp add: loop_result_def loop_errors_def)
  have n: "async_update_llm_data h ui ce cl (Some []) = async_update_llm_data h ui ce cl None"
    by (simp add: async_update_llm_data_def collect_apis_def)
  show ?thesis
    unfolding c fst_conv snd_conv l
    using a all_failed_turn [OF assms, of cl] n
    by (auto simp: error_line_logged loop_errors_def)
qed

theorem failed_names_dropped_in_order_witness:
  "loop_recoverable ex_hass ex_input ex_entry (Some [''bad'', ''nope''])
   \<and> list_all (\<lambda>n. isl (get_llm_api ex_hass ex_input ex_entry n)) (requested (Some [''bad'', ''nope'']))
   \<and> get_llm_api ex_hass ex_input ex_entry ''bad'' = Inl (HomeAssistantError ''not found'')
   \<and> api_instances (fst (collect_apis (get_llm_api ex_hass ex_input ex_entry) (Some [''bad'', ''nope'']))) = []
   \<and> LogErrorGettingAPI ''bad'' (HomeAssistantError ''not found'')
       \<in> set (logged (fst (collect_apis (get_llm_api ex_hass ex_input ex_entry) (Some [''bad'', ''nope'']))))
   \<and> async_update_llm_data ex_hass ex_input ex_entry ex_chat_log (Some [''bad'', ''nope'']) =
       (case async_update_llm_data ex_hass ex_input ex_entry ex_chat_log (Some []) of
          ((cl1, evs), out) \<Rightarrow>
            ((cl1, logged (fst (collect_apis (get_llm_api ex_hass ex_input ex_entry)
                       (Some [''bad'', ''nope'']))) @ evs), out))"
proof -
  have f: "list_all (\<lambda>n. isl (get_llm_api ex_hass ex_input ex_entry n)) (requested (Some [''bad'', ''nope'']))"
    by (simp add: requested_def ex_get_llm_api)
  have g: "get_llm_api ex_hass ex_input ex_entry ''bad'' = Inl (HomeAssistantError ''not found'')"
    by (simp add: ex_get_llm_api)
  have m: "''bad'' \<in> set (requested (Some [''bad'', ''nope'']))"
    by (simp add: requested_def)
  show ?thesis
    using failed_names_dropped_in_order [OF ex_loop_recoverable, of ex_input ex_entry "Some [''bad'', ''nope'']" ex_chat_log]
      f g m
    by (simp add: ex_loop_recoverable requested_def ex_get_llm_api)
qed

text \<open>
  C5, as amended. When the base prompt is rendered (the turn is not the one of the custom
  API alone) and rendering raises \<open>TemplateError\<close>, the coroutine raises \<open>ConverseError\<close>
  with the message \<open>Error rendering prompt\<close>, the conversation id of the chat log and an
  intent response whose speech is \<open>Sorry, I had a problem with my template\<close>; the chat
  log is left as it was and nothing is put on either trace. The counterexample after the
  witness shows that neither text is the one the claim quotes.
\<close>

theorem template_error_becomes_converse_error:
  assumes "loop_recoverable h ui ce names"
    and "\<not> (has_custom_api (resolved_apis h ui ce names)
          \<and> length (resolved_apis h ui ce names) = 1)"
    and "async_get_base_prompt h (make_prompt_context h ui) ce = Inl (TemplateError m)"
  shows "async_update_llm_data h ui ce cl names =
           ((cl, loop_errors h ui ce names
                 @ [GetBasePrompt (make_prompt_context h ui),
                    LogErrorRenderingPrompt (TemplateError m)]),
            Inl (ConverseError ''Error rendering prompt'' (conversation_id cl)
                   \<lparr>response_language = in_language ui, response_error_code = UNKNOWN,
                    response_speech = ''Sorry, I had a problem with my template''\<rparr>))
       \<and> filter is_trace_event (events_of (async_update_llm_data h ui ce cl names)) = []"
proof -
  have c: "collect_apis (get_llm_api h ui ce) names = (loop_result h ui ce names, None)"
    by (rule collect_apis_loop_result [OF assms(1)])
  have s: "\<not> (has_custom_api (api_instances (loop_result h ui ce names))
      \<and> length (api_instances (loop_result h ui ce names)) = 1)"
    using assms(2) by (simp add: loop_result_simps)
  note b = build_prompt_template_error [OF s assms(3), of cl]
  show ?thesis
    unfolding turn_not_built [OF c b] events_of_def
    by (simp add: loop_result_simps template_error_response_def loop_errors_def
        error_lines_no_trace)
qed

theorem template_error_becomes_converse_error_witness:
  "loop_recoverable ex_hass_bad_template ex_input ex_entry (Some [''weather''])
   \<and> \<not> (has_custom_api (resolved_apis ex_hass_bad_template ex_input ex_entry (Some [''weather'']))
        \<and> length (resolved_apis ex_hass_bad_template ex_input ex_entry (Some [''weather''])) = 1)
   \<and> async_get_base_prompt ex_hass_bad_template
        (make_prompt_context ex_hass_bad_template ex_input) ex_entry =
       Inl (TemplateError ''bad template'')
   \<and> async_update_llm_data ex_hass_bad_template ex_input ex_entry ex_chat_log (Some [''weather'']) =
       ((ex_chat_log,
         [GetBasePrompt \<lparr>ha_name = ''Home'', user_name = None\<rparr>,
          LogErrorRenderingPrompt (TemplateError ''bad template'')]),
        Inl (ConverseError ''Error rendering prompt'' ''c1''
               \<lparr>response_language = ''en'', response_error_code = UNKNOWN,
                response_speech = ''Sorry, I had a problem with my template''\<rparr>))"
proof -
  have 2: "\<not> (has_custom_api (resolved_apis ex_hass_bad_template ex_input ex_entry (Some [''weather'']))
        \<and> length (resolved_apis ex_hass_bad_template ex_input ex_entry (Some [''weather''])) = 1)"
    by (simp add: ex_bad_template_summary ex_resolved_weather has_custom_api_def ex_apis)
  have 3: "async_get_base_prompt ex_hass_bad_template
        (make_prompt_context ex_hass_bad_template ex_input) ex_entry =
       Inl (TemplateError ''bad template'')"
    by (simp add: ex_bad_template_summary)
  have i: "conversation_id ex_chat_log = ''c1''" "in_language ex_input = ''en''"
    by (simp_all add: ex_chat_log_def ex_input_def)
  show ?thesis
    using template_error_becomes_converse_error [OF ex_bad_template_summary(1) 2 3, of ex_chat_log] 2 3
    by (simp add: ex_bad_template_summary ex_loop_errors i)
qed

theorem converse_error_message_counterexample:
  "async_update_llm_data ex_hass_bad_template ex_input ex_entry ex_chat_log None =
     ((ex_chat_log,
       [GetBasePrompt \<lparr>ha_name = ''Home'', user_name = None\<rparr>,
        LogErrorRenderingPrompt (TemplateError ''bad template'')]),
      Inl (ConverseError ''Error rendering prompt'' ''c1''
             \<lparr>response_language = ''en'', response_error_code = UNKNOWN,
              response_speech = ''Sorry, I had a problem with my template''\<rparr>))
   \<and> ''Sorry, I had a problem with my template''
       \<noteq> ''a problem occurred while preparing the response''
   \<and> ''Error rendering prompt'' \<noteq> ''a problem occurred while preparing the response''"
proof -
  have c: "collect_apis (get_llm_api ex_hass_bad_template ex_input ex_entry) None = (no_apis, None)"
    by (simp add: collect_apis_def)
  have s: "\<not> (has_custom_api (api_instances no_apis) \<and> length (api_instances no_apis) = 1)"
    by (simp add: no_apis_def)
  have 3: "async_get_base_prompt ex_hass_bad_template
        (make_prompt_context ex_hass_bad_template ex_input) ex_entry =
       Inl (TemplateError ''bad template'')"
    by (simp add: ex_bad_template_summary)
  have i: "conversation_id ex_chat_log = ''c1''" "in_language ex_input = ''en''"
    by (simp_all add: ex_chat_log_def ex_input_def)
  show ?thesis
    unfolding turn_not_built [OF c build_prompt_template_error [OF s 3]]
    by (simp add: no_apis_def ex_bad_template_summary template_error_response_def i)
qed

text \<open>
  C6, as amended. When more than one API instance resolves, the installed instance is a
  new one with the \<open>api\<close> of the first resolved instance, the LLM context of the turn,
  the selector serializer, the tools of all resolved instances concatenated in the order
  of resolution, and as prompt the final prompt: the built prompt with the extra system
  prompt appended when one is selected. The counterexample after the witness is a turn with
  an extra system prompt, where the prompt of the installed instance differs from the
  built prompt.
\<close>

theorem synthetic_api_of_several:
  assumes "loop_recoverable h ui ce names"
    and "2 \<le> length (resolved_apis h ui ce names)"
    and "render_base h ui ce = Inr (obj, b)"
    and "content cl \<noteq> []"
  shows "llm_api (chat_log_after (async_update_llm_data h ui ce cl names)) =
           Some \<lparr>api = api (hd (resolved_apis h ui ce names)),
                 api_prompt =
                   Inr (Str (append_extra
                     (join newline (b # concat (map fragment (resolved_apis h ui ce names))))
                     (select_extra ui cl))),
                 llm_context = make_llm_context h ui,
                 tools = concat (map tools (resolved_apis h ui ce names)),
                 custom_serializer = Some selector_serializer\<rparr>"
proof -
  have s: "combines (resolved_apis h ui ce names)"
    using assms(2) by (simp add: combines_def)
  note t = combined_turn [OF assms(1) s assms(3)]
  note p = turn_published_parts [OF t(1) t(2) assms(4)]
  have n: "resolved_apis h ui ce names \<noteq> []" "length (resolved_apis h ui ce names) \<noteq> 1"
    using assms(2) by auto
  show ?thesis
    unfolding p(3) using n
    by (simp add: combine_apis_def loop_result_simps final_prompt_def)
qed

theorem synthetic_api_of_several_witness:
  "loop_recoverable ex_hass ex_input ex_entry (Some [''custom'', ''bad'', ''weather''])
   \<and> 2 \<le> length (resolved_apis ex_hass ex_input ex_entry (Some [''custom'', ''bad'', ''weather'']))
   \<and> render_base ex_hass ex_input ex_entry = Inr (None, ''Base.'')
   \<and> content ex_chat_log \<noteq> []
   \<and> llm_api (chat_log_after (async_update_llm_data ex_hass ex_input ex_entry ex_chat_log
         (Some [''custom'', ''bad'', ''weather'']))) =
       Some \<lparr>api = CustomLLMAPI,
             api_prompt = Inr (Str ''Base.\<newline>Custom complete prompt.\<newline>Tools: weather.''),
             llm_context = ex_context,
             tools = [''turn_on'', ''turn_off'', ''forecast''],
             custom_serializer = Some selector_serializer\<rparr>"
proof -
  have 2: "2 \<le> length (resolved_apis ex_hass ex_input ex_entry (Some [''custom'', ''bad'', ''weather'']))"
    by (simp add: ex_resolved_two)
  have 4: "content ex_chat_log \<noteq> []" by (simp add: ex_contents)
  show ?thesis
    using synthetic_api_of_several [OF ex_loop_recoverable 2 ex_render_base 4] 2 4
    by (simp add: ex_loop_recoverable ex_render_base ex_resolved_two ex_fragments ex_apis ex_tools
        ex_selected ex_llm_context append_extra_def newline_def)
qed

theorem synthetic_api_prompt_counterexample:
  "resolved_apis ex_hass ex_input_extra ex_entry (Some [''custom'', ''bad'', ''weather'']) =
     [ex_custom, ex_weather]
   \<and> build_prompt ex_hass ex_input_extra ex_entry ex_chat_log
       (fst (collect_apis (get_llm_api ex_hass ex_input_extra ex_entry)
          (Some [''custom'', ''bad'', ''weather'']))) =
       ([GetBasePrompt \<lparr>ha_name = ''Home'', user_name = None\<rparr>],
        Inr (None, ''Base.\<newline>Custom complete prompt.\<newline>Tools: weather.''))
   \<and> map_option api_prompt
       (llm_api (chat_log_after (async_update_llm_data ex_hass ex_input_extra ex_entry ex_chat_log
          (Some [''custom'', ''bad'', ''weather''])))) =
       Some (Inr (Str ''Base.\<newline>Custom complete prompt.\<newline>Tools: weather.\<newline>Be brief.''))
   \<and> ''Base.\<newline>Custom complete prompt.\<newline>Tools: weather.\<newline>Be brief.''
       \<noteq> ''Base.\<newline>Custom complete prompt.\<newline>Tools: weather.''"
proof -
  have 4: "content ex_chat_log \<noteq> []" by (simp add: ex_contents)
  note p = turn_published_parts [OF ex_collect ex_build_two 4]
  have a: "map_option api_prompt
       (llm_api (chat_log_after (async_update_llm_data ex_hass ex_input_extra ex_entry ex_chat_log
          (Some [''custom'', ''bad'', ''weather''])))) =
       Some (Inr (Str ''Base.\<newline>Custom complete prompt.\<newline>Tools: weather.\<newline>Be brief.''))"
    unfolding p(3)
    by (simp add: combine_apis_def loop_result_simps ex_resolved_two final_prompt_def
        ex_selected append_extra_def newline_def)
  show ?thesis
    using a by (simp add: ex_resolved_two ex_collect ex_build_two ex_prompt_context)
qed

text \<open>
  C7. When the prompt was built, whichever branch built it, and the selected extra system
  prompt (the one of the user input when it is non-empty, the one stored on the chat log
  otherwise) is a non-empty string, the leading message is the built prompt, a newline and
  that string; the string is stored on the chat log, so a later turn without an extra
  system prompt of its own selects it again; and the trace is tagged.
\<close>

theorem extra_system_prompt_appended_last:
  assumes "collect_apis (get_llm_api h ui ce) names = (c, None)"
    and "build_prompt h ui ce cl c = (evs, Inr (obj, prompt0))"
    and "content cl \<noteq> []"
    and "select_extra ui cl = Some x"
    and "x \<noteq> []"
  shows "content (chat_log_after (async_update_llm_data h ui ce cl names)) =
           SystemContent (prompt0 @ newline @ x) # tl (content cl)
       \<and> extra_system_prompt (chat_log_after (async_update_llm_data h ui ce cl names)) = Some x
       \<and> select_extra (ui\<lparr>in_extra_system_prompt := None\<rparr>)
           (chat_log_after (async_update_llm_data h ui ce cl names)) = Some x
       \<and> (truthy (in_extra_system_prompt ui) \<longrightarrow> in_extra_system_prompt ui = Some x)
       \<and> UpdateCurrentTrace [''extra_system_prompt'']
           \<in> set (events_of (async_update_llm_data h ui ce cl names))"
proof -
  note p = turn_published_parts [OF assms(1) assms(2) assms(3)]
  have 1: "content (chat_log_after (async_update_llm_data h ui ce cl names)) =
      SystemContent (prompt0 @ newline @ x) # tl (content cl)"
    by (simp add: p(1) final_prompt_extra [OF assms(4) assms(5)])
  have 2: "extra_system_prompt (chat_log_after (async_update_llm_data h ui ce cl names)) = Some x"
    by (simp add: p(2) assms(4))
  have 3: "select_extra (ui\<lparr>in_extra_system_prompt := None\<rparr>)
      (chat_log_after (async_update_llm_data h ui ce cl names)) = Some x"
    by (simp add: select_extra_def py_or_def 2)
  have 4: "truthy (in_extra_system_prompt ui) \<longrightarrow> in_extra_system_prompt ui = Some x"
    using assms(4) by (simp add: select_extra_def py_or_def split: if_splits)
  have 5: "UpdateCurrentTrace [''extra_system_prompt'']
      \<in> set (events_of (async_update_llm_data h ui ce cl names))"
    unfolding turn_published [OF assms(1) assms(2) assms(3)] events_of_def
    using assms(4) assms(5) by simp
  show ?thesis using 1 2 3 4 5 by blast
qed

theorem extra_system_prompt_appended_last_witness:
  "collect_apis (get_llm_api ex_hass ex_input_extra ex_entry) (Some [''weather'']) =
     (loop_result ex_hass ex_input_extra ex_entry (Some [''weather'']), None)
   \<and> build_prompt ex_hass ex_input_extra ex_entry ex_chat_log_stored
       (loop_result ex_hass ex_input_extra ex_entry (Some [''weather''])) =
       ([GetBasePrompt (make_prompt_context ex_hass ex_input_extra)],
        Inr (None, ''Base.\<newline>Tools: weather.''))
   \<and> content ex_chat_log_stored \<noteq> []
   \<and> select_extra ex_input_extra ex_chat_log_stored = Some ''Be brief.''
   \<and> truthy (in_extra_system_prompt ex_input_extra)
   \<and> content (chat_log_after (async_update_llm_data ex_hass ex_input_extra ex_entry
         ex_chat_log_stored (Some [''weather'']))) =
       [SystemContent ''Base.\<newline>Tools: weather.\<newline>Be brief.'', UserContent ''hello'']
   \<and> extra_system_prompt (chat_log_after (async_update_llm_data ex_hass ex_input_extra ex_entry
         ex_chat_log_stored (Some [''weather'']))) = Some ''Be brief.''
   \<and> select_extra (ex_input_extra\<lparr>in_extra_system_prompt := None\<rparr>)
       (chat_log_after (async_update_llm_data ex_hass ex_input_extra ex_entry
         ex_chat_log_stored (Some [''weather'']))) = Some ''Be brief.''"
proof -
  have 3: "content ex_chat_log_stored \<noteq> []" by (simp add: ex_contents)
  have 4: "select_extra ex_input_extra ex_chat_log_stored = Some ''Be brief.''"
    by (simp add: select_extra_def py_or_def ex_contents)
  have 5: "''Be brief.'' \<noteq> []" by simp
  have 6: "truthy (in_extra_system_prompt ex_input_extra)" by (simp add: ex_contents)
  show ?thesis
    using extra_system_prompt_appended_last [OF ex_collect ex_build_weather 3 4 5] 3 4 6
    by (simp add: ex_collect ex_build_weather ex_contents newline_def)
qed

text \<open>
  C8. An instance that resolves while awaiting its prompt in the loop raises a
  \<open>HomeAssistantError\<close> is kept, with its tools, on the paths that combine (lemma
  \<open>failed_prompt_keeps_tools\<close>). The path of the custom API resolved alone is the
  exception: there the prompt is awaited again (line 124), outside the handler of the
  loop, and when that await raises as well, whatever the exception, it leaves the
  coroutine (as a \<open>ConverseError\<close> when it is a \<open>TemplateError\<close>) with the chat log as
  it was: neither the instance nor its tools are installed.
\<close>

theorem sole_custom_failed_prompt_aborts:
  assumes "loop_recoverable h ui ce names"
    and "resolved_apis h ui ce names = [a]"
    and "api a = CustomLLMAPI"
    and "api_prompt a = Inl e0"
    and "api_prompt_again h a = Inl e"
  shows "fragment a = []
       \<and> async_update_llm_data h ui ce cl names =
           ((cl, loop_errors h ui ce names
                 @ (if is_TemplateError e then [LogErrorRenderingPrompt e] else [])),
            Inl (if is_TemplateError e
                 then ConverseError ''Error rendering prompt'' (conversation_id cl)
                        \<lparr>response_language = in_language ui, response_error_code = UNKNOWN,
                         response_speech = ''Sorry, I had a problem with my template''\<rparr>
                 else Raise e))
       \<and> llm_api (chat_log_after (async_update_llm_data h ui ce cl names)) = llm_api cl"
proof -
  have f: "fragment a = []" by (simp add: fragment_def assms(4))
  note t = sole_custom_failed_turn [OF assms(1) assms(2) assms(3) assms(5), of cl]
  show ?thesis
    unfolding t chat_log_after_def
    by (simp add: f template_error_response_def)
qed

theorem sole_custom_failed_prompt_aborts_witness:
  "loop_recoverable ex_hass_custom_silent ex_input ex_entry (Some [''custom''])
   \<and> resolved_apis ex_hass_custom_silent ex_input ex_entry (Some [''custom'']) = [ex_custom_silent]
   \<and> api ex_custom_silent = CustomLLMAPI
   \<and> api_prompt ex_custom_silent = Inl (HomeAssistantError ''no prompt'')
   \<and> api_prompt_again ex_hass_custom_silent ex_custom_silent =
       Inl (HomeAssistantError ''no prompt'')
   \<and> async_update_llm_data ex_hass_custom_silent ex_input ex_entry ex_chat_log (Some [''custom'']) =
       ((ex_chat_log, [LogErrorGettingAPI ''custom'' (HomeAssistantError ''no prompt'')]),
        Inl (Raise (HomeAssistantError ''no prompt'')))
   \<and> llm_api (chat_log_after (async_update_llm_data ex_hass_custom_silent ex_input ex_entry
         ex_chat_log (Some [''custom'']))) = None
   \<and> api_prompt_again ex_hass_custom_reused ex_custom_silent =
       Inl (OtherError ''cannot reuse already awaited coroutine'')
   \<and> async_update_llm_data ex_hass_custom_reused ex_input ex_entry ex_chat_log (Some [''custom'']) =
       ((ex_chat_log, [LogErrorGettingAPI ''custom'' (HomeAssistantError ''no prompt'')]),
        Inl (Raise (OtherError ''cannot reuse already awaited coroutine'')))"
proof -
  have 4: "api_prompt ex_custom_silent = Inl (HomeAssistantError ''no prompt'')"
    by (simp add: ex_custom_silent_facts)
  have 5: "api_prompt_again ex_hass_custom_silent ex_custom_silent =
      Inl (HomeAssistantError ''no prompt'')"
    by (simp add: ex_custom_silent_again ex_custom_silent_facts)
  have 6: "api_prompt_again ex_hass_custom_reused ex_custom_silent =
      Inl (OtherError ''cannot reuse already awaited coroutine'')"
    by (simp add: ex_custom_silent_again)
  have n: "llm_api ex_chat_log = None" by (simp add: ex_chat_log_def)
  show ?thesis
    using sole_custom_failed_prompt_aborts [OF ex_custom_silent_loop(1) ex_custom_silent_loop(2)
        ex_custom_silent_facts(1) 4 5, of ex_input ex_entry ex_chat_log]
      sole_custom_failed_prompt_aborts [OF ex_custom_reused_loop(1) ex_custom_reused_loop(2)
        ex_custom_silent_facts(1) 4 6, of ex_input ex_entry ex_chat_log]
      4 5 6
    by (simp add: ex_custom_silent_loop ex_custom_reused_loop ex_custom_silent_facts n
        chat_log_after_def)
qed

text \<open>
  C9. When the extra system prompt of the user input is the empty string and the chat log
  stores a non-empty one, the stored one is selected, appended after a newline and stored
  again: the empty string neither clears it nor takes its place.
\<close>

theorem empty_override_keeps_stored:
  assumes "collect_apis (get_llm_api h ui ce) names = (c, None)"
    and "build_prompt h ui ce cl c = (evs, Inr (obj, prompt0))"
    and "content cl \<noteq> []"
    and "in_extra_system_prompt ui = Some []"
    and "extra_system_prompt cl = Some s"
    and "s \<noteq> []"
  shows "select_extra ui cl = Some s
       \<and> content (chat_log_after (async_update_llm_data h ui ce cl names)) =
           SystemContent (prompt0 @ newline @ s) # tl (content cl)
       \<and> extra_system_prompt (chat_log_after (async_update_llm_data h ui ce cl names)) = Some s"
proof -
  have e: "select_extra ui cl = Some s"
    by (simp add: select_extra_def py_or_def assms(4) assms(5))
  note p = turn_published_parts [OF assms(1) assms(2) assms(3)]
  show ?thesis
    by (simp add: e p(1) p(2) final_prompt_extra [OF e assms(6)])
qed

theorem empty_override_keeps_stored_witness:
  "collect_apis (get_llm_api ex_hass (ex_input\<lparr>in_extra_system_prompt := Some []\<rparr>) ex_entry)
       (Some [''weather'']) =
     (loop_result ex_hass (ex_input\<lparr>in_extra_system_prompt := Some []\<rparr>) ex_entry
       (Some [''weather'']), None)
   \<and> in_extra_system_prompt (ex_input\<lparr>in_extra_system_prompt := Some []\<rparr>) = Some []
   \<and> extra_system_prompt ex_chat_log_stored = Some ''Speak French.''
   \<and> select_extra (ex_input\<lparr>in_extra_system_prompt := Some []\<rparr>) ex_chat_log_stored =
       Some ''Speak French.''
   \<and> content (chat_log_after (async_update_llm_data ex_hass
         (ex_input\<lparr>in_extra_system_prompt := Some []\<rparr>) ex_entry ex_chat_log_stored
         (Some [''weather'']))) =
       [SystemContent ''Base.\<newline>Tools: weather.\<newline>Speak French.'', UserContent ''hello'']
   \<and> extra_system_prompt (chat_log_after (async_update_llm_data ex_hass
         (ex_input\<lparr>in_extra_system_prompt := Some []\<rparr>) ex_entry ex_chat_log_stored
         (Some [''weather'']))) = Some ''Speak French.''"
proof -
  have 3: "content ex_chat_log_stored \<noteq> []" by (simp add: ex_contents)
  have 4: "in_extra_system_prompt (ex_input\<lparr>in_extra_system_prompt := Some []\<rparr>) = Some []"
    by simp
  have 5: "extra_system_prompt ex_chat_log_stored = Some ''Speak French.''"
    by (simp add: ex_contents)
  have 6: "''Speak French.'' \<noteq> []" by simp
  show ?thesis
    using empty_override_keeps_stored [OF ex_collect ex_build_weather 3 4 5 6] 5
    by (simp add: ex_collect ex_contents newline_def)
qed

text \<open>
  C10. When the prompt was built, the content of the chat log afterwards is the content
  before with its first message replaced by the system message of the final prompt, every
  later message as it was; when the content is empty the assignment raises \<open>IndexError\<close>
  and the content stays empty.
\<close>

theorem only_leading_message_replaced:
  assumes "collect_apis (get_llm_api h ui ce) names = (c, None)"
    and "build_prompt h ui ce cl c = (evs, Inr (obj, prompt0))"
  shows "content (chat_log_after (async_update_llm_data h ui ce cl names)) =
           (case content cl of
              [] \<Rightarrow> []
            | m # ms \<Rightarrow> SystemContent (append_extra prompt0 (select_extra ui cl)) # ms)
       \<and> outcome_of (async_update_llm_data h ui ce cl names) =
           (if content cl = [] then Inl (Raise (IndexError ''list assignment index out of range''))
            else Inr obj)"
proof (cases "content cl")
  case Nil
  show ?thesis
    unfolding turn_built [OF assms] publish_empty [OF Nil] chat_log_after_def outcome_of_def
    by (simp add: Nil)
next
  case (Cons m ms)
  then have n: "content cl \<noteq> []" by simp
  show ?thesis
    unfolding turn_built [OF assms] publish_nonempty [OF n] chat_log_after_def outcome_of_def
    by (simp add: Cons final_prompt_def)
qed

theorem only_leading_message_replaced_witness:
  "collect_apis (get_llm_api ex_hass ex_input_extra ex_entry) (Some [''weather'']) =
     (loop_result ex_hass ex_input_extra ex_entry (Some [''weather'']), None)
   \<and> build_prompt ex_hass ex_input_extra ex_entry ex_chat_log
       (loop_result ex_hass ex_input_extra ex_entry (Some [''weather''])) =
       ([GetBasePrompt (make_prompt_context ex_hass ex_input_extra)],
        Inr (None, ''Base.\<newline>Tools: weather.''))
   \<and> content ex_chat_log = [SystemContent ''old'', UserContent ''hello'']
   \<and> content (chat_log_after (async_update_llm_data ex_hass ex_input_extra ex_entry ex_chat_log
         (Some [''weather'']))) =
       [SystemContent ''Base.\<newline>Tools: weather.\<newline>Be brief.'', UserContent ''hello'']
   \<and> outcome_of (async_update_llm_data ex_hass ex_input_extra ex_entry ex_chat_log
         (Some [''weather''])) = Inr None
   \<and> outcome_of (async_update_llm_data ex_hass ex_input_extra ex_entry
         (ex_chat_log\<lparr>content := []\<rparr>) (Some [''weather''])) =
       Inl (Raise (IndexError ''list assignment index out of range''))
   \<and> content (chat_log_after (async_update_llm_data ex_hass ex_input_extra ex_entry
         (ex_chat_log\<lparr>content := []\<rparr>) (Some [''weather'']))) = []"
proof -
  have s: "select_extra ex_input_extra ex_chat_log = Some ''Be brief.''"
    by (simp add: select_extra_def py_or_def ex_contents)
  show ?thesis
    using only_leading_message_replaced [OF ex_collect ex_build_weather,
        of ex_input_extra ex_entry ex_chat_log]
      only_leading_message_replaced [OF ex_collect ex_build_weather,
        of ex_input_extra ex_entry "ex_chat_log\<lparr>content := []\<rparr>"]
    by (simp add: ex_collect ex_build_weather ex_contents s append_extra_def newline_def)
qed

end
